theory Spec2Isabelle
  imports Complex_Main "HOL-Library.Word"
begin

section \<open>The guest API of src/index.ts\<close>

text \<open>
  The program is one file: a table \<open>guests\<close> in an embedded SQL database, the helper
  \<open>isPositiveInt\<close>, the validator \<open>validateGuest\<close> and five request handlers. The
  handlers are modelled as functions from the table and the request to the response and
  the new table. JavaScript values are modelled as the language defines them: a string is
  a sequence of 16-bit code units, a number is a binary64 value. The database is modelled
  by the effect of the five SQL statements of the source on a list of rows; text is
  stored as UTF-8. What the program leaves to the database (the rowid of a row inserted
  without one) is an argument of the model.
\<close>

subsection \<open>Strings\<close>

type_synonym jstring = "16 word list"

text \<open>An ASCII literal as a JavaScript string.\<close>

definition js :: "string \<Rightarrow> jstring" where
  "js s = map (\<lambda>c. of_char c) s"

text \<open>
  The code units \<open>String.prototype.trim\<close> removes, which are also the white space of a
  numeric string: WhiteSpace and LineTerminator of ECMA-262.
\<close>

definition isWhiteSpace :: "16 word \<Rightarrow> bool" where
  "isWhiteSpace c \<longleftrightarrow>
     c \<in> {0x9, 0xA, 0xB, 0xC, 0xD, 0x20, 0xA0, 0x1680, 0x2028, 0x2029, 0x202F, 0x205F,
          0x3000, 0xFEFF}
     \<or> (0x2000 \<le> c \<and> c \<le> 0x200A)"

definition trim :: "jstring \<Rightarrow> jstring" where
  "trim s = rev (dropWhile isWhiteSpace (rev (dropWhile isWhiteSpace s)))"

subsection \<open>Numbers\<close>

text \<open>
  A JavaScript number is NaN, an infinity or a finite binary64 value, here the rational it
  denotes (\<open>-0\<close> is not told apart from \<open>0\<close>: the program only compares and binds
  numbers). \<open>to_double\<close> rounds a rational to the nearest binary64 value, ties to even.
\<close>

datatype jsnum = Double rat | Infinity | NegInfinity | NaN

function bit_length :: "int \<Rightarrow> int" where
  "bit_length n = (if n \<le> 0 then 0 else 1 + bit_length (n div 2))"
  by pat_completeness auto
termination
  by (relation "measure nat") auto

declare bit_length.simps [simp del]

definition pow2 :: "int \<Rightarrow> rat" where
  "pow2 e = (if 0 \<le> e then 2 ^ nat e else 1 / 2 ^ nat (- e))"

text \<open>The largest \<open>e\<close> with \<open>2 ^ e \<le> a\<close>, for a positive \<open>a\<close>.\<close>

definition floor_log2 :: "rat \<Rightarrow> int" where
  "floor_log2 a =
     (let (n, d) = quotient_of a;
          x = bit_length n - bit_length d
      in if pow2 x \<le> a then x else x - 1)"

definition round_half_even :: "rat \<Rightarrow> int" where
  "round_half_even x =
     (let f = \<lfloor>x\<rfloor>; r = x - of_int f
      in if r < 1 / 2 then f else if 1 / 2 < r then f + 1 else if even f then f else f + 1)"

definition to_double :: "rat \<Rightarrow> jsnum" where
  "to_double r =
     (if r = 0 then Double 0
      else let a = \<bar>r\<bar>;
               p = max (floor_log2 a) (- 1022) - 52;
               v = of_int (round_half_even (a / pow2 p)) * pow2 p
           in if pow2 1024 \<le> v then (if 0 < r then Infinity else NegInfinity)
              else Double (if 0 < r then v else - v))"

text \<open>
  \<open>Number(s)\<close> on a string: StringToNumber of ECMA-262. White space is stripped; the
  empty string is 0; the rest is a binary, octal or hexadecimal integer literal, or a
  signed decimal literal or \<open>Infinity\<close>; anything else is NaN.
\<close>

definition isDigit :: "16 word \<Rightarrow> bool" where
  "isDigit c \<longleftrightarrow> 0x30 \<le> c \<and> c \<le> 0x39"

definition digit_of :: "16 word \<Rightarrow> int option" where
  "digit_of c =
     (if 0x30 \<le> c \<and> c \<le> 0x39 then Some (uint c - 0x30)
      else if 0x61 \<le> c \<and> c \<le> 0x66 then Some (uint c - 0x61 + 10)
      else if 0x41 \<le> c \<and> c \<le> 0x46 then Some (uint c - 0x41 + 10)
      else None)"

definition is_radix_digit :: "int \<Rightarrow> 16 word \<Rightarrow> bool" where
  "is_radix_digit b c = (case digit_of c of None \<Rightarrow> False | Some d \<Rightarrow> d < b)"

definition digits_value :: "int \<Rightarrow> jstring \<Rightarrow> int" where
  "digits_value b ds = foldl (\<lambda>a c. b * a + the (digit_of c)) 0 ds"

definition pow10 :: "int \<Rightarrow> rat" where
  "pow10 e = (if 0 \<le> e then 10 ^ nat e else 1 / 10 ^ nat (- e))"

definition parse_exponent :: "jstring \<Rightarrow> int option" where
  "parse_exponent s =
     (case s of
        [] \<Rightarrow> Some 0
      | c # t \<Rightarrow>
          if c = 0x65 \<or> c = 0x45 then
            (let neg = (t \<noteq> [] \<and> hd t = 0x2D);
                 ds = (if t \<noteq> [] \<and> (hd t = 0x2B \<or> hd t = 0x2D) then tl t else t)
             in if ds \<noteq> [] \<and> list_all isDigit ds
                then Some (if neg then - digits_value 10 ds else digits_value 10 ds)
                else None)
          else None)"

definition parse_unsigned_decimal :: "jstring \<Rightarrow> rat option" where
  "parse_unsigned_decimal s =
     (let ip = takeWhile isDigit s;
          r1 = dropWhile isDigit s;
          dot = (r1 \<noteq> [] \<and> hd r1 = 0x2E);
          fp = (if dot then takeWhile isDigit (tl r1) else []);
          r2 = (if dot then dropWhile isDigit (tl r1) else r1)
      in if ip = [] \<and> fp = [] then None
         else (case parse_exponent r2 of
                 None \<Rightarrow> None
               | Some ex \<Rightarrow>
                   Some (of_int (digits_value 10 (ip @ fp)) * pow10 (ex - int (length fp)))))"

definition parse_non_decimal :: "jstring \<Rightarrow> int option" where
  "parse_non_decimal s =
     (case s of
        z # x # ds \<Rightarrow>
          (let b = (if x = 0x78 \<or> x = 0x58 then 16
                    else if x = 0x6F \<or> x = 0x4F then 8
                    else if x = 0x62 \<or> x = 0x42 then 2 else (0::int))
           in if z = 0x30 \<and> b \<noteq> 0 \<and> ds \<noteq> [] \<and> list_all (is_radix_digit b) ds
              then Some (digits_value b ds) else None)
      | _ \<Rightarrow> None)"

definition parse_decimal :: "jstring \<Rightarrow> jsnum" where
  "parse_decimal s =
     (let neg = (s \<noteq> [] \<and> hd s = 0x2D);
          u = (if s \<noteq> [] \<and> (hd s = 0x2B \<or> hd s = 0x2D) then tl s else s)
      in if u = js ''Infinity'' then (if neg then NegInfinity else Infinity)
         else (case parse_unsigned_decimal u of
                 None \<Rightarrow> NaN
               | Some m \<Rightarrow> to_double (if neg then - m else m)))"

definition Number :: "jstring \<Rightarrow> jsnum" where
  "Number s =
     (let t = trim s
      in if t = [] then Double 0
         else (case parse_non_decimal t of
                 Some n \<Rightarrow> to_double (of_int n)
               | None \<Rightarrow> parse_decimal t))"

text \<open>
  The decimal numeral of a natural number: the path value a client writes for the guest
  with that \<open>guestid\<close>.
\<close>

definition digit_char :: "int \<Rightarrow> 16 word" where
  "digit_char d = of_int (0x30 + d)"

function decimal :: "int \<Rightarrow> jstring" where
  "decimal n = (if n < 10 then [digit_char n] else decimal (n div 10) @ [digit_char (n mod 10)])"
  by pat_completeness auto
termination
  by (relation "measure nat") auto

declare decimal.simps [simp del]

text \<open>\<open>Number.isInteger(n)\<close> and the helper of the source (lines 21 to 23).\<close>

definition isInteger :: "jsnum \<Rightarrow> bool" where
  "isInteger n = (case n of Double r \<Rightarrow> of_int \<lfloor>r\<rfloor> = r | _ \<Rightarrow> False)"

definition greater_zero :: "jsnum \<Rightarrow> bool" where
  "greater_zero n = (case n of Double r \<Rightarrow> 0 < r | Infinity \<Rightarrow> True | _ \<Rightarrow> False)"

definition isPositiveInt :: "jsnum \<Rightarrow> bool" where
  "isPositiveInt n \<longleftrightarrow> isInteger n \<and> greater_zero n"

subsection \<open>Request bodies and the validator\<close>

text \<open>
  A parsed JSON value. \<open>validateGuest\<close> tests the run-time type of \<open>name\<close>, \<open>phone\<close>,
  \<open>email\<close> and \<open>address\<close>, so these four properties of a body are arbitrary JSON values
  or undefined (\<open>None\<close>). The source never tests \<open>guestid\<close>; it is read at its declared
  type \<open>guestid?: number\<close>, \<open>None\<close> when the property is absent or null (the source
  reads it through \<open>??\<close> only, which treats the two alike). A body that is not an object
  has none of the five properties.
\<close>

datatype json =
    JNull
  | JBool bool
  | JNum jsnum
  | JStr jstring
  | JArr "json list"
  | JObj "(jstring \<times> json) list"

record GuestInput =
  body_guestid :: "jsnum option"
  body_name :: "json option"
  body_phone :: "json option"
  body_email :: "json option"
  body_address :: "json option"

definition typeof :: "json option \<Rightarrow> string" where
  "typeof v =
     (case v of
        None \<Rightarrow> ''undefined''
      | Some JNull \<Rightarrow> ''object''
      | Some (JBool _) \<Rightarrow> ''boolean''
      | Some (JNum _) \<Rightarrow> ''number''
      | Some (JStr _) \<Rightarrow> ''string''
      | Some (JArr _) \<Rightarrow> ''object''
      | Some (JObj _) \<Rightarrow> ''object'')"

text \<open>The string behind a value whose \<open>typeof\<close> is \<open>string\<close>.\<close>

definition string_of :: "json option \<Rightarrow> jstring" where
  "string_of v = (case v of Some (JStr s) \<Rightarrow> s | _ \<Rightarrow> [])"

text \<open>\<open>validateGuest\<close>, lines 34 to 54: four independent tests, each pushing one message.\<close>

definition validateGuest :: "GuestInput \<Rightarrow> string list" where
  "validateGuest body =
     (if typeof (body_name body) \<noteq> ''string'' \<or> trim (string_of (body_name body)) = []
      then [''name is required (non-empty string)''] else [])
     @ (if body_phone body \<noteq> None \<and> typeof (body_phone body) \<noteq> ''string''
        then [''phone must be string if provided''] else [])
     @ (if body_email body \<noteq> None \<and> typeof (body_email body) \<noteq> ''string''
        then [''email must be string if provided''] else [])
     @ (if body_address body \<noteq> None \<and> typeof (body_address body) \<noteq> ''string''
        then [''address must be string if provided''] else [])"

subsection \<open>The table\<close>

text \<open>
  A row of \<open>guests\<close> (lines 10 to 18): \<open>guestid INTEGER PRIMARY KEY\<close> is the 64-bit
  rowid, \<open>name TEXT NOT NULL\<close>, and three nullable text columns. The same record with a
  number as \<open>guestid\<close> is the object a SELECT hands to JavaScript.
\<close>

record 'i guest =
  guestid :: 'i
  name :: jstring
  phone :: "jstring option"
  email :: "jstring option"
  address :: "jstring option"

text \<open>
  A string bound to a statement is stored as UTF-8 and read back into a string. A
  well-formed string comes back as it was; a surrogate code unit that is not part of a
  pair (a high surrogate followed by a low one) comes back as U+FFFD.
\<close>

definition isHighSurrogate :: "16 word \<Rightarrow> bool" where
  "isHighSurrogate c \<longleftrightarrow> 0xD800 \<le> c \<and> c \<le> 0xDBFF"

definition isLowSurrogate :: "16 word \<Rightarrow> bool" where
  "isLowSurrogate c \<longleftrightarrow> 0xDC00 \<le> c \<and> c \<le> 0xDFFF"

fun utf8_text :: "jstring \<Rightarrow> jstring" where
  "utf8_text [] = []"
| "utf8_text [c] = (if isHighSurrogate c \<or> isLowSurrogate c then [0xFFFD] else [c])"
| "utf8_text (c # d # s) =
     (if isHighSurrogate c \<and> isLowSurrogate d then c # d # utf8_text s
      else if isHighSurrogate c \<or> isLowSurrogate c then 0xFFFD # utf8_text (d # s)
      else c # utf8_text (d # s))"

text \<open>The row a statement stores for a rowid and the four values bound to it.\<close>

definition stored ::
  "int \<Rightarrow> jstring \<Rightarrow> jstring option \<Rightarrow> jstring option \<Rightarrow> jstring option \<Rightarrow> int guest" where
  "stored k n p e a =
     \<lparr>guestid = k, name = utf8_text n, phone = map_option utf8_text p,
      email = map_option utf8_text e, address = map_option utf8_text a\<rparr>"

text \<open>The table, in rowid order.\<close>

type_synonym guests = "int guest list"

text \<open>An integer column read into JavaScript is a number.\<close>

definition int64_to_number :: "int \<Rightarrow> jsnum" where
  "int64_to_number k = to_double (of_int k)"

definition row_to_js :: "int guest \<Rightarrow> jsnum guest" where
  "row_to_js g =
     \<lparr>guestid = int64_to_number (guestid g), name = name g, phone = phone g,
      email = email g, address = address g\<rparr>"

text \<open>
  \<open>WHERE guestid = ?\<close> with a number bound to the parameter: the comparison of the
  integer column with the bound value is exact, and NaN is bound as NULL, which equals
  no rowid.
\<close>

definition matches :: "jsnum \<Rightarrow> int guest \<Rightarrow> bool" where
  "matches v g \<longleftrightarrow> v = Double (of_int (guestid g))"

text \<open>\<open>SELECT * FROM guests WHERE guestid = ?\<close>, read with \<open>get\<close>.\<close>

definition select_guest :: "guests \<Rightarrow> jsnum \<Rightarrow> int guest option" where
  "select_guest db v = find (matches v) db"

datatype sqlite_error = Datatype_mismatch | Unique_constraint | Database_full

text \<open>
  A real value stored into the rowid column: it must convert to a 64-bit integer without
  loss, and SQLite refuses both ends of the range.
\<close>

definition rowid_of_real :: "rat \<Rightarrow> int option" where
  "rowid_of_real r =
     (if of_int \<lfloor>r\<rfloor> = r \<and> - (2 ^ 63) < r \<and> r < 2 ^ 63 - 1 then Some \<lfloor>r\<rfloor> else None)"

text \<open>
  The rowid SQLite chooses for a NULL \<open>guestid\<close>: 1 in an empty table, else one more
  than the largest rowid; when that is the largest 64-bit integer, the first unused one
  among 100 random candidates between 1 and \<open>2 ^ 62\<close> (\<open>draws\<close> are the random 64-bit
  values it takes), and an error if all are used.
\<close>

definition new_rowid :: "(nat \<Rightarrow> int) \<Rightarrow> guests \<Rightarrow> sqlite_error + int" where
  "new_rowid draws db =
     (if db = [] then Inr 1
      else let m = Max (guestid ` set db)
           in if m < 2 ^ 63 - 1 then Inr (m + 1)
              else (case find (\<lambda>v. v \<notin> guestid ` set db)
                           (map (\<lambda>i. draws i mod 2 ^ 62 + 1) [0..<100]) of
                      Some v \<Rightarrow> Inr v
                    | None \<Rightarrow> Inl Database_full))"

text \<open>
  \<open>INSERT INTO guests (guestid, name, phone, email, address) VALUES (?, ?, ?, ?, ?)\<close>
  (lines 110 to 121) with \<open>id ?? null\<close> bound to the first parameter: NULL lets SQLite
  choose the rowid, a number must be a rowid that no row has (NaN, which no JSON text
  denotes, is bound as NULL). The result is the error thrown, or \<open>lastInsertRowid\<close> and
  the new table.
\<close>

definition insert_rowid :: "(nat \<Rightarrow> int) \<Rightarrow> guests \<Rightarrow> jsnum option \<Rightarrow> sqlite_error + int" where
  "insert_rowid draws db id' =
     (case id' of
        None \<Rightarrow> new_rowid draws db
      | Some NaN \<Rightarrow> new_rowid draws db
      | Some (Double r) \<Rightarrow>
          (case rowid_of_real r of
             None \<Rightarrow> Inl Datatype_mismatch
           | Some k \<Rightarrow> if k \<in> guestid ` set db then Inl Unique_constraint else Inr k)
      | Some _ \<Rightarrow> Inl Datatype_mismatch)"

definition insert_guest ::
  "(nat \<Rightarrow> int) \<Rightarrow> guests \<Rightarrow> jsnum option \<Rightarrow> jstring \<Rightarrow> jstring option \<Rightarrow> jstring option \<Rightarrow>
     jstring option \<Rightarrow> sqlite_error + (int \<times> guests)" where
  "insert_guest draws db id' n p e a =
     (case insert_rowid draws db id' of
        Inl err \<Rightarrow> Inl err
      | Inr k \<Rightarrow> Inr (k, insort_key guestid (stored k n p e a) db))"

text \<open>
  \<open>UPDATE guests SET name = ?, phone = ?, email = ?, address = ? WHERE guestid = ?\<close>
  (lines 170 to 182).
\<close>

definition update_guest ::
  "guests \<Rightarrow> jstring \<Rightarrow> jstring option \<Rightarrow> jstring option \<Rightarrow> jstring option \<Rightarrow> jsnum \<Rightarrow> guests" where
  "update_guest db n p e a id' =
     map (\<lambda>g. if matches id' g
               then g\<lparr>name := utf8_text n, phone := map_option utf8_text p,
                      email := map_option utf8_text e, address := map_option utf8_text a\<rparr>
               else g) db"

text \<open>
  \<open>DELETE FROM guests WHERE guestid = ?\<close> (lines 202 to 204): the number of rows deleted
  (\<open>info.changes\<close>) and the new table.
\<close>

definition delete_guest_row :: "guests \<Rightarrow> jsnum \<Rightarrow> nat \<times> guests" where
  "delete_guest_row db id' = (length (filter (matches id') db), filter (\<lambda>g. \<not> matches id' g) db)"

subsection \<open>The handlers\<close>

text \<open>
  A response is the HTTP status and the JSON body given to \<open>c.json\<close>: the rows, one row
  (\<open>None\<close> when the value serialised is undefined), \<open>{message}\<close>,
  \<open>{message, errors}\<close> or \<open>{message, error}\<close>.
\<close>

datatype body =
    Rows "jsnum guest list"
  | Row "jsnum guest option"
  | Message string
  | Errors string "string list"
  | Error string sqlite_error

type_synonym response = "nat \<times> body"

text \<open>
  \<open>body.phone ?? null\<close> for a property that passed \<open>validateGuest\<close>: undefined or a
  string.
\<close>

definition or_null :: "json option \<Rightarrow> jstring option" where
  "or_null v = (case v of Some (JStr s) \<Rightarrow> Some s | _ \<Rightarrow> None)"

text \<open>\<open>GET /api/guests\<close>, lines 62 to 65.\<close>

definition get_guests :: "guests \<Rightarrow> response \<times> guests" where
  "get_guests db = ((200, Rows (map row_to_js db)), db)"

text \<open>\<open>GET /api/guests/:id\<close>, lines 71 to 87.\<close>

definition get_guest :: "guests \<Rightarrow> jstring \<Rightarrow> response \<times> guests" where
  "get_guest db param =
     (let id' = Number param
      in if \<not> isPositiveInt id' then ((400, Message ''guestid must be positive integer''), db)
         else (case select_guest db id' of
                 None \<Rightarrow> ((404, Message ''guest not found''), db)
               | Some row \<Rightarrow> ((200, Row (Some (row_to_js row))), db)))"

text \<open>
  \<open>POST /api/guests\<close>, lines 94 to 138. The body is \<open>None\<close> when \<open>c.req.json()\<close>
  failed or gave a falsy value. \<open>Number(info.lastInsertRowid)\<close> is a number, so the
  rowid passes through \<open>int64_to_number\<close>.
\<close>

definition post_guests :: "(nat \<Rightarrow> int) \<Rightarrow> guests \<Rightarrow> GuestInput option \<Rightarrow> response \<times> guests" where
  "post_guests draws db body =
     (case body of
        None \<Rightarrow> ((400, Message ''invalid JSON body''), db)
      | Some b \<Rightarrow>
          (let errors = validateGuest b
           in if length errors > 0 then ((400, Errors ''validation error'' errors), db)
              else
                (let id' = body_guestid b
                 in case insert_guest draws db id' (trim (string_of (body_name b)))
                           (or_null (body_phone b)) (or_null (body_email b))
                           (or_null (body_address b)) of
                      Inl err \<Rightarrow> ((500, Error ''internal error'' err), db)
                    | Inr (lastInsertRowid, db') \<Rightarrow>
                        (let guestid' = (case id' of
                                          None \<Rightarrow> int64_to_number lastInsertRowid
                                        | Some n \<Rightarrow> n);
                             created = select_guest db' guestid'
                         in ((201, Row (map_option row_to_js created)), db')))))"

text \<open>\<open>PUT /api/guests/:id\<close>, lines 144 to 189.\<close>

definition put_guest :: "guests \<Rightarrow> jstring \<Rightarrow> GuestInput option \<Rightarrow> response \<times> guests" where
  "put_guest db param body =
     (let id' = Number param
      in if \<not> isPositiveInt id' then ((400, Message ''guestid must be positive integer''), db)
         else (case select_guest db id' of
                 None \<Rightarrow> ((404, Message ''guest not found''), db)
               | Some existing \<Rightarrow>
                   (case body of
                      None \<Rightarrow> ((400, Message ''invalid JSON body''), db)
                    | Some b \<Rightarrow>
                        (let errors = validateGuest b
                         in if length errors > 0
                            then ((400, Errors ''validation error'' errors), db)
                            else
                              (let db' = update_guest db (trim (string_of (body_name b)))
                                           (or_null (body_phone b)) (or_null (body_email b))
                                           (or_null (body_address b)) id';
                                   updated = select_guest db' id'
                               in ((200, Row (map_option row_to_js updated)), db'))))))"

text \<open>\<open>DELETE /api/guests/:id\<close>, lines 195 to 211.\<close>

definition delete_guest :: "guests \<Rightarrow> jstring \<Rightarrow> response \<times> guests" where
  "delete_guest db param =
     (let id' = Number param
      in if \<not> isPositiveInt id' then ((400, Message ''guestid must be positive integer''), db)
         else (let (changes, db') = delete_guest_row db id'
               in if changes = 0 then ((404, Message ''guest not found''), db')
                  else ((200, Message ''deleted''), db')))"

text \<open>The router: one request, and a sequence of requests from a given table.\<close>

datatype request =
    GET_guests
  | GET_guest jstring
  | POST_guests "GuestInput option" "nat \<Rightarrow> int"
  | PUT_guest jstring "GuestInput option"
  | DELETE_guest jstring

fun app :: "guests \<Rightarrow> request \<Rightarrow> response \<times> guests" where
  "app db GET_guests = get_guests db"
| "app db (GET_guest param) = get_guest db param"
| "app db (POST_guests body draws) = post_guests draws db body"
| "app db (PUT_guest param body) = put_guest db param body"
| "app db (DELETE_guest param) = delete_guest db param"

definition serve :: "guests \<Rightarrow> request list \<Rightarrow> guests" where
  "serve db reqs = foldl (\<lambda>d r. snd (app d r)) db reqs"

subsection \<open>Invariants of the table\<close>

text \<open>
  The properties of the stored rows the handlers are checked against: no two rows share a
  \<open>guestid\<close>, every \<open>guestid\<close> is positive, and no \<open>name\<close> is empty after trimming.
\<close>

definition unique_ids :: "guests \<Rightarrow> bool" where
  "unique_ids db \<longleftrightarrow> distinct (map guestid db)"

definition positive_ids :: "guests \<Rightarrow> bool" where
  "positive_ids db \<longleftrightarrow> list_all (\<lambda>g. 0 < guestid g) db"

definition names_nonempty :: "guests \<Rightarrow> bool" where
  "names_nonempty db \<longleftrightarrow> list_all (\<lambda>g. trim (name g) \<noteq> []) db"

text \<open>A request that is not a create with a \<open>guestid\<close> other than a positive integer.\<close>

fun positive_create :: "request \<Rightarrow> bool" where
  "positive_create (POST_guests (Some b) draws) =
     (case body_guestid b of None \<Rightarrow> True | Some n \<Rightarrow> isPositiveInt n)"
| "positive_create _ = True"

section \<open>The validator\<close>

lemma all_dropWhile: "list_all P (dropWhile P s) \<longleftrightarrow> list_all P s"
  by (induction s) auto

lemma trim_empty_iff: "trim s = [] \<longleftrightarrow> list_all isWhiteSpace s"
proof -
  have "trim s = [] \<longleftrightarrow> list_all isWhiteSpace (dropWhile isWhiteSpace s)"
    by (simp add: trim_def dropWhile_eq_Nil_conv list_all_iff)
  then show ?thesis
    by (simp add: all_dropWhile)
qed

lemma dropWhile_rev_fixed:
  "dropWhile P (rev (dropWhile P (rev (dropWhile P s)))) = rev (dropWhile P (rev (dropWhile P s)))"
proof -
  define ys where "ys = dropWhile P s"
  define zs where "zs = dropWhile P (rev ys)"
  show ?thesis
  proof (cases "zs = []")
    case True
    then have "dropWhile P (rev (dropWhile P s)) = []"
      by (simp only: zs_def ys_def)
    then show ?thesis
      by (simp only: rev.simps dropWhile.simps)
  next
    case False
    have "rev ys = takeWhile P (rev ys) @ zs"
      by (simp add: zs_def)
    then have "rev (rev ys) = rev (takeWhile P (rev ys) @ zs)"
      by simp
    then have split: "ys = rev zs @ rev (takeWhile P (rev ys))"
      by simp
    with False have "hd (rev zs) = hd ys" and "ys \<noteq> []"
      by (metis hd_append2 rev_is_Nil_conv, metis append_is_Nil_conv rev_is_Nil_conv)
    then have "\<not> P (hd (rev zs))"
      using hd_dropWhile [of P s] by (simp add: ys_def)
    with False have "dropWhile P (rev zs) = rev zs"
      by (cases "rev zs") auto
    then show ?thesis
      by (simp add: zs_def ys_def)
  qed
qed

text \<open>Trimming a trimmed string changes nothing.\<close>

lemma trim_idem: "trim (trim s) = trim s"
  by (simp add: trim_def dropWhile_rev_fixed)

lemma typeof_string_iff: "typeof v = ''string'' \<longleftrightarrow> (\<exists>s. v = Some (JStr s))"
  by (simp add: typeof_def split: option.splits json.splits)

lemma name_error_iff:
  "''name is required (non-empty string)'' \<in> set (validateGuest b) \<longleftrightarrow>
     body_name b = None
     \<or> (\<exists>v. body_name b = Some v \<and> (\<forall>s. v \<noteq> JStr s))
     \<or> (\<exists>s. body_name b = Some (JStr s) \<and> trim s = [])"
  by (cases "body_name b")
     (auto simp: validateGuest_def typeof_string_iff string_of_def split: json.splits)

lemma phone_error_iff:
  "''phone must be string if provided'' \<in> set (validateGuest b) \<longleftrightarrow>
     (\<exists>v. body_phone b = Some v \<and> (\<forall>s. v \<noteq> JStr s))"
  by (cases "body_phone b") (auto simp: validateGuest_def typeof_string_iff)

lemma email_error_iff:
  "''email must be string if provided'' \<in> set (validateGuest b) \<longleftrightarrow>
     (\<exists>v. body_email b = Some v \<and> (\<forall>s. v \<noteq> JStr s))"
  by (cases "body_email b") (auto simp: validateGuest_def typeof_string_iff)

lemma address_error_iff:
  "''address must be string if provided'' \<in> set (validateGuest b) \<longleftrightarrow>
     (\<exists>v. body_address b = Some v \<and> (\<forall>s. v \<noteq> JStr s))"
  by (cases "body_address b") (auto simp: validateGuest_def typeof_string_iff)

lemma validateGuest_messages:
  "set (validateGuest b) \<subseteq>
     {''name is required (non-empty string)'', ''phone must be string if provided'',
      ''email must be string if provided'', ''address must be string if provided''}"
  by (auto simp: validateGuest_def split: if_splits)

lemma validateGuest_empty_name:
  "validateGuest \<lparr>body_guestid = None, body_name = Some (JStr []), body_phone = None,
       body_email = None, body_address = None\<rparr> = [''name is required (non-empty string)'']"
  by (simp add: validateGuest_def typeof_def string_of_def trim_def)

text \<open>
  C2. The validator collects every violation: its result holds the name message exactly
  when \<open>name\<close> is missing, is not a string, or is a string that is empty after trimming
  (by \<open>trim_empty_iff\<close>: one made of white space only); it holds the message of
  \<open>phone\<close>, \<open>email\<close> or \<open>address\<close> exactly when that property is present and not a
  string; it holds no other message; and the body \<open>{"name":""}\<close> gives exactly the name
  message.
\<close>

theorem validateGuest_collects_all:
  "(''name is required (non-empty string)'' \<in> set (validateGuest b) \<longleftrightarrow>
      body_name b = None
      \<or> (\<exists>v. body_name b = Some v \<and> (\<forall>s. v \<noteq> JStr s))
      \<or> (\<exists>s. body_name b = Some (JStr s) \<and> trim s = []))
   \<and> (''phone must be string if provided'' \<in> set (validateGuest b) \<longleftrightarrow>
        (\<exists>v. body_phone b = Some v \<and> (\<forall>s. v \<noteq> JStr s)))
   \<and> (''email must be string if provided'' \<in> set (validateGuest b) \<longleftrightarrow>
        (\<exists>v. body_email b = Some v \<and> (\<forall>s. v \<noteq> JStr s)))
   \<and> (''address must be string if provided'' \<in> set (validateGuest b) \<longleftrightarrow>
        (\<exists>v. body_address b = Some v \<and> (\<forall>s. v \<noteq> JStr s)))
   \<and> set (validateGuest b) \<subseteq>
        {''name is required (non-empty string)'', ''phone must be string if provided'',
         ''email must be string if provided'', ''address must be string if provided''}
   \<and> validateGuest \<lparr>body_guestid = None, body_name = Some (JStr []), body_phone = None,
          body_email = None, body_address = None\<rparr> = [''name is required (non-empty string)'']"
  using name_error_iff [of b] phone_error_iff [of b] email_error_iff [of b]
    address_error_iff [of b] validateGuest_messages [of b] validateGuest_empty_name
  by blast

text \<open>
  The body \<open>{"name":"  ","phone":null,"email":"a","address":1}\<close> has three violations,
  and all three are reported.
\<close>

theorem validateGuest_collects_all_witness:
  "''name is required (non-empty string)'' \<in> set (validateGuest
       \<lparr>body_guestid = None, body_name = Some (JStr (js ''  '')), body_phone = Some JNull,
        body_email = Some (JStr (js ''a'')), body_address = Some (JNum (Double 1))\<rparr>)
   \<and> ''phone must be string if provided'' \<in> set (validateGuest
       \<lparr>body_guestid = None, body_name = Some (JStr (js ''  '')), body_phone = Some JNull,
        body_email = Some (JStr (js ''a'')), body_address = Some (JNum (Double 1))\<rparr>)
   \<and> ''email must be string if provided'' \<notin> set (validateGuest
       \<lparr>body_guestid = None, body_name = Some (JStr (js ''  '')), body_phone = Some JNull,
        body_email = Some (JStr (js ''a'')), body_address = Some (JNum (Double 1))\<rparr>)
   \<and> ''address must be string if provided'' \<in> set (validateGuest
       \<lparr>body_guestid = None, body_name = Some (JStr (js ''  '')), body_phone = Some JNull,
        body_email = Some (JStr (js ''a'')), body_address = Some (JNum (Double 1))\<rparr>)"
  using validateGuest_collects_all
    [of "\<lparr>body_guestid = None, body_name = Some (JStr (js ''  '')), body_phone = Some JNull,
        body_email = Some (JStr (js ''a'')), body_address = Some (JNum (Double 1))\<rparr>"]
  by (simp add: trim_def js_def isWhiteSpace_def)

text \<open>
  C10. The validator is a function of the four properties it reads, and its result is
  the fixed list of the four messages (name, phone, email, address, in this order) with
  the messages that do not apply left out: the order is fixed and no message comes twice.
\<close>

theorem validateGuest_fixed_order:
  "validateGuest b =
     filter (\<lambda>m. m \<in> set (validateGuest b))
       [''name is required (non-empty string)'', ''phone must be string if provided'',
        ''email must be string if provided'', ''address must be string if provided'']
   \<and> validateGuest (b\<lparr>body_guestid := g\<rparr>) = validateGuest b
   \<and> validateGuest b =
       validateGuest \<lparr>body_guestid = None, body_name = body_name b, body_phone = body_phone b,
          body_email = body_email b, body_address = body_address b\<rparr>"
  by (simp add: validateGuest_def)

theorem validateGuest_fixed_order_witness:
  "validateGuest
     \<lparr>body_guestid = Some (Double 7), body_name = None, body_phone = Some (JBool True),
      body_email = Some (JArr []), body_address = Some (JObj [])\<rparr> =
   [''name is required (non-empty string)'', ''phone must be string if provided'',
    ''email must be string if provided'', ''address must be string if provided'']"
  using validateGuest_fixed_order
    [of "\<lparr>body_guestid = Some (Double 7), body_name = None, body_phone = Some (JBool True),
        body_email = Some (JArr []), body_address = Some (JObj [])\<rparr>" None]
  by (simp add: validateGuest_def typeof_def)

section \<open>Integers as numbers\<close>

text \<open>
  \<open>bit_length n\<close> is the number of binary digits of a positive \<open>n\<close>, so \<open>floor_log2\<close>
  is right on integers, and an integer of magnitude up to \<open>2 ^ 53\<close> is a number: rounding
  leaves it as it is.
\<close>

lemma bit_length_nonneg: "0 \<le> bit_length n"
  by (induction n rule: bit_length.induct) (subst bit_length.simps, simp)

lemma bit_length_pos: "0 < n \<Longrightarrow> 0 < bit_length n"
  using bit_length_nonneg [of "n div 2"] by (subst bit_length.simps) simp

lemma bit_length_bounds:
  "0 < n \<Longrightarrow> 2 ^ nat (bit_length n - 1) \<le> n \<and> n < 2 ^ nat (bit_length n)"
proof (induction n rule: bit_length.induct)
  case (1 n)
  show ?case
  proof (cases "n = 1")
    case True
    then show ?thesis
      by (simp add: bit_length.simps [of 1] bit_length.simps [of 0])
  next
    case False
    with "1.prems" have half: "0 < n div 2" by simp
    with "1.IH" "1.prems" have ih:
      "2 ^ nat (bit_length (n div 2) - 1) \<le> n div 2" "n div 2 < 2 ^ nat (bit_length (n div 2))"
      by simp_all
    have bl: "bit_length n = 1 + bit_length (n div 2)"
      using "1.prems" by (subst bit_length.simps) simp
    have pos: "0 < bit_length (n div 2)"
      using half by (rule bit_length_pos)
    then have e: "nat (bit_length n - 1) = Suc (nat (bit_length (n div 2) - 1))"
      "nat (bit_length n) = Suc (nat (bit_length (n div 2)))"
      using bl by simp_all
    show ?thesis
      using ih unfolding e by simp presburger
  qed
qed

lemma round_half_even_int: "round_half_even (of_int m) = m"
  by (simp add: round_half_even_def)

lemma floor_log2_int:
  assumes "0 < n"
  shows "floor_log2 (of_int n) = bit_length n - 1"
proof -
  have b1: "bit_length 1 = 1"
    by (simp add: bit_length.simps [of 1] bit_length.simps [of 0])
  have "2 ^ nat (bit_length n - 1) \<le> n"
    using bit_length_bounds [OF assms] by simp
  then have "(of_int (2 ^ nat (bit_length n - 1)) :: rat) \<le> of_int n"
    by (simp only: of_int_le_iff)
  then have "pow2 (bit_length n - 1) \<le> of_int n"
    using bit_length_pos [OF assms] by (simp add: pow2_def)
  then show ?thesis
    by (simp add: floor_log2_def b1)
qed

lemma to_double_int_exact:
  assumes "\<bar>k\<bar> \<le> 2 ^ 53"
  shows "to_double (of_int k) = Double (of_int k)"
proof (cases "k = 0")
  case True
  then show ?thesis by (simp add: to_double_def)
next
  case False
  define n where "n = \<bar>k\<bar>"
  have n: "0 < n" "n \<le> 2 ^ 53"
    using False assms by (simp_all add: n_def)
  define e where "e = bit_length n - 1"
  have fl: "floor_log2 (of_int n) = e"
    using floor_log2_int [OF n(1)] by (simp add: e_def)
  have e0: "0 \<le> e"
    using bit_length_pos [OF n(1)] by (simp add: e_def)
  have "2 ^ nat e \<le> n"
    using bit_length_bounds [OF n(1)] by (simp add: e_def)
  with n(2) have "(2::int) ^ nat e \<le> 2 ^ 53" by linarith
  then have e53: "nat e \<le> 53"
    by (simp only: power_increasing_iff [of 2] one_less_numeral_iff semiring_norm)
  have round: "of_int (round_half_even (of_int n / pow2 (e - 52))) * pow2 (e - 52) = (of_int n :: rat)"
  proof (cases "e \<le> 52")
    case True
    then have "pow2 (e - 52) = 1 / 2 ^ nat (52 - e)"
      by (auto simp: pow2_def)
    moreover have "(of_int n :: rat) / (1 / 2 ^ nat (52 - e)) = of_int (n * 2 ^ nat (52 - e))"
      by simp
    ultimately show ?thesis
      by (simp only: round_half_even_int) simp
  next
    case False
    with e53 e0 have e: "e = 53" by linarith
    with \<open>2 ^ nat e \<le> n\<close> n(2) have "n = 2 ^ 53" by simp
    then have "(of_int n :: rat) / pow2 (e - 52) = of_int (2 ^ 52)"
      by (simp add: e pow2_def)
    then show ?thesis
      by (simp only: round_half_even_int) (simp add: e pow2_def \<open>n = 2 ^ 53\<close>)
  qed
  have small: "\<not> pow2 1024 \<le> (of_int n :: rat)"
  proof -
    have "(of_int n :: rat) \<le> of_int (2 ^ 53)"
      using n(2) by (simp only: of_int_le_iff)
    then show ?thesis by (simp add: pow2_def)
  qed
  have abs: "\<bar>of_int k :: rat\<bar> = of_int n"
    by (simp add: n_def)
  have p: "max e (- 1022) - 52 = e - 52"
    using e0 by simp
  have v: "of_int (round_half_even (\<bar>of_int k\<bar> /
               pow2 (max (floor_log2 \<bar>of_int k\<bar>) (- 1022) - 52))) *
             pow2 (max (floor_log2 \<bar>of_int k\<bar>) (- 1022) - 52) = (of_int n :: rat)"
    unfolding abs fl p by (rule round)
  show ?thesis
    unfolding to_double_def Let_def v using False small by (auto simp: n_def)
qed

lemma to_double_numeral:
  "numeral w \<le> (2 ^ 53 :: int) \<Longrightarrow> to_double (numeral w) = Double (numeral w)"
  using to_double_int_exact [of "numeral w"] by simp

lemma to_double_neg_numeral:
  "numeral w \<le> (2 ^ 53 :: int) \<Longrightarrow> to_double (- numeral w) = Double (- numeral w)"
  using to_double_int_exact [of "- numeral w"] by simp

lemma to_double_0: "to_double 0 = Double 0"
  by (simp add: to_double_def)

lemma to_double_1: "to_double 1 = Double 1"
  using to_double_int_exact [of 1] by simp

lemma to_double_minus_1: "to_double (- 1) = Double (- 1)"
  using to_double_int_exact [of "- 1"] by simp

lemma floor_rat_numeral_div: "\<lfloor>(numeral a :: rat) / numeral b\<rfloor> = numeral a div numeral b"
  using floor_divide_of_int_eq [of "numeral a" "numeral b", where ?'a = rat] by simp

lemma int64_to_number_exact: "\<bar>k\<bar> \<le> 2 ^ 53 \<Longrightarrow> int64_to_number k = Double (of_int k)"
  by (simp add: int64_to_number_def to_double_int_exact)

text \<open>
  The first integer that is not a number: \<open>2 ^ 53 + 1\<close> lies half way between two
  binary64 values and rounds to the even one, \<open>2 ^ 53\<close>.
\<close>

lemma to_double_2_53_1: "to_double 9007199254740993 = Double 9007199254740992"
proof -
  have bl: "bit_length 9007199254740993 = 54"
    by (simp add: bit_length.simps)
  have fl: "floor_log2 9007199254740993 = 53"
    using floor_log2_int [of 9007199254740993] by (simp add: bl)
  show ?thesis
    by (simp add: to_double_def fl pow2_def round_half_even_def Let_def floor_rat_numeral_div)
qed

text \<open>
  The definitions that evaluate a handler on a concrete request, and \<open>Number\<close> on the
  path values used below.
\<close>

lemmas string_eval = js_def trim_def isWhiteSpace_def

lemmas number_eval =
  Number_def parse_non_decimal_def parse_decimal_def parse_unsigned_decimal_def
  parse_exponent_def isDigit_def digit_of_def is_radix_digit_def digits_value_def pow10_def
  to_double_numeral to_double_neg_numeral to_double_0 to_double_1 to_double_minus_1
  isPositiveInt_def isInteger_def greater_zero_def

lemmas validate_eval = validateGuest_def typeof_def string_of_def or_null_def

lemmas table_eval =
  select_guest_def matches_def row_to_js_def int64_to_number_def insert_guest_def stored_def
  isHighSurrogate_def isLowSurrogate_def
  insert_rowid_def new_rowid_def rowid_of_real_def update_guest_def delete_guest_row_def

lemma Number_abc: "Number (js ''abc'') = NaN"
  by (simp add: string_eval number_eval)

lemma Number_0: "Number (js ''0'') = Double 0"
  by (simp add: string_eval number_eval)

lemma Number_minus1: "Number (js ''-1'') = Double (- 1)"
  by (simp add: string_eval number_eval)

lemma Number_1: "Number (js ''1'') = Double 1"
  by (simp add: string_eval number_eval)

lemma Number_7: "Number (js ''7'') = Double 7"
  by (simp add: string_eval number_eval)

lemma Number_8: "Number (js ''8'') = Double 8"
  by (simp add: string_eval number_eval)

lemma Number_999999: "Number (js ''999999'') = Double 999999"
  by (simp add: string_eval number_eval)

lemma Number_1e30: "Number (js ''1e30'') = Double 1000000000000000019884624838656"
proof -
  have bl: "bit_length 1000000000000000000000000000000 = 100"
    by (simp add: bit_length.simps)
  have fl: "floor_log2 1000000000000000000000000000000 = 99"
    using floor_log2_int [of 1000000000000000000000000000000] by (simp add: bl)
  have "to_double 1000000000000000000000000000000 = Double 1000000000000000019884624838656"
    by (simp add: to_double_def fl pow2_def round_half_even_def Let_def floor_rat_numeral_div)
  then show ?thesis
    by (simp add: string_eval Number_def parse_non_decimal_def parse_decimal_def
        parse_unsigned_decimal_def parse_exponent_def isDigit_def digit_of_def digits_value_def
        pow10_def)
qed

text \<open>
  \<open>isPositiveInt\<close> holds exactly of the numbers that are positive integers.
\<close>

lemma isPositiveInt_iff: "isPositiveInt n \<longleftrightarrow> (\<exists>k. 0 < k \<and> n = Double (of_int k))"
proof
  assume "isPositiveInt n"
  then obtain r where r: "n = Double r" "of_int \<lfloor>r\<rfloor> = r" "0 < r"
    by (cases n) (auto simp: isPositiveInt_def isInteger_def greater_zero_def)
  then have "0 < \<lfloor>r\<rfloor>"
    by (metis of_int_0_less_iff)
  with r show "\<exists>k. 0 < k \<and> n = Double (of_int k)"
    by metis
next
  assume "\<exists>k. 0 < k \<and> n = Double (of_int k)"
  then show "isPositiveInt n"
    by (auto simp: isPositiveInt_def isInteger_def greater_zero_def)
qed

section \<open>The statements on the table\<close>

lemma matches_of_int [simp]: "matches (Double (of_int k)) g \<longleftrightarrow> guestid g = k"
  by (auto simp: matches_def)

lemma matches_of_int_fun: "matches (Double (of_int k)) = (\<lambda>g. guestid g = k)"
  by (auto simp: fun_eq_iff)

lemma select_guest_None: "select_guest db v = None \<longleftrightarrow> (\<forall>g\<in>set db. \<not> matches v g)"
  by (auto simp: select_guest_def find_None_iff)

lemma select_guest_SomeD: "select_guest db v = Some g \<Longrightarrow> g \<in> set db \<and> matches v g"
  by (auto simp: select_guest_def find_Some_iff)

lemma select_guest_unique:
  "distinct (map guestid db) \<Longrightarrow> g \<in> set db \<Longrightarrow> matches v g \<Longrightarrow> select_guest db v = Some g"
proof (induction db)
  case Nil
  then show ?case by simp
next
  case (Cons x db)
  show ?case
  proof (cases "x = g")
    case True
    with Cons.prems show ?thesis by (simp add: select_guest_def)
  next
    case False
    with Cons.prems have g: "g \<in> set db" by simp
    with Cons.prems have "guestid x \<noteq> guestid g" by auto
    with Cons.prems have "\<not> matches v x" by (auto simp: matches_def)
    with Cons g show ?thesis by (simp add: select_guest_def)
  qed
qed

lemma find_map_updated:
  "k \<in> f ` set db \<Longrightarrow> f x = k \<Longrightarrow>
     find (\<lambda>g. f g = k) (map (\<lambda>r. if f r = k then x else r) db) = Some x"
  by (induction db) auto

lemma update_guest_map:
  "update_guest db n p e a (Double (of_int k)) =
     map (\<lambda>r. if guestid r = k then stored k n p e a else r) db"
  by (auto simp: update_guest_def stored_def)

lemma new_rowid_fresh: "new_rowid draws db = Inr k \<Longrightarrow> k \<notin> guestid ` set db"
proof (cases "db = []")
  case True
  then show ?thesis by simp
next
  case False
  assume k: "new_rowid draws db = Inr k"
  show ?thesis
  proof (cases "Max (guestid ` set db) < 2 ^ 63 - 1")
    case True
    with k False have "k = Max (guestid ` set db) + 1"
      by (simp add: new_rowid_def Let_def del: Max_less_iff)
    moreover have "j \<le> Max (guestid ` set db)" if "j \<in> guestid ` set db" for j
      using that by (intro Max_ge) auto
    ultimately show ?thesis by fastforce
  next
    case big: False
    with k False have "find (\<lambda>v. v \<notin> guestid ` set db)
        (map (\<lambda>i. draws i mod 2 ^ 62 + 1) [0..<100]) = Some k"
      by (simp add: new_rowid_def Let_def del: Max_less_iff split: option.splits)
    then show ?thesis
      by (auto simp: find_Some_iff)
  qed
qed

lemma insert_rowid_fresh: "insert_rowid draws db i = Inr k \<Longrightarrow> k \<notin> guestid ` set db"
  by (auto simp: insert_rowid_def new_rowid_fresh split: option.splits jsnum.splits if_splits)

lemma find_insort_new:
  "\<forall>g\<in>set db. \<not> P g \<Longrightarrow> P x \<Longrightarrow> find P (insort_key f x db) = Some x"
  by (induction db) auto

lemma select_insort_new:
  "k \<notin> guestid ` set db \<Longrightarrow> guestid x = k \<Longrightarrow>
     select_guest (insort_key guestid x db) (Double (of_int k)) = Some x"
proof -
  assume "k \<notin> guestid ` set db" and x: "guestid x = k"
  then have "\<forall>g\<in>set db. \<not> matches (Double (of_int k)) g"
    by (metis image_eqI matches_of_int)
  then show ?thesis
    using x by (simp add: select_guest_def find_insort_new)
qed

lemma rowid_of_real_int:
  "- (2 ^ 63) < k \<Longrightarrow> k < 2 ^ 63 - 1 \<Longrightarrow> rowid_of_real (of_int k) = Some k"
proof -
  assume "- (2 ^ 63) < k" "k < 2 ^ 63 - 1"
  then have "(of_int (- (2 ^ 63)) :: rat) < of_int k" "(of_int k :: rat) < of_int (2 ^ 63 - 1)"
    by (simp_all only: of_int_less_iff)
  then show ?thesis
    by (simp add: rowid_of_real_def)
qed

text \<open>
  A body passes \<open>validateGuest\<close> exactly when \<open>name\<close> is a string that is not empty
  after trimming and each of \<open>phone\<close>, \<open>email\<close>, \<open>address\<close> is absent or a string.
\<close>

lemma valid_body_iff:
  "validateGuest b = [] \<longleftrightarrow>
     (\<exists>s p e a. body_name b = Some (JStr s) \<and> trim s \<noteq> []
        \<and> body_phone b = map_option JStr p \<and> body_email b = map_option JStr e
        \<and> body_address b = map_option JStr a)"
proof -
  have ex: "(\<exists>p. v = map_option JStr p) \<longleftrightarrow> v = None \<or> (\<exists>s. v = Some (JStr s))" for v
  proof
    assume "\<exists>p. v = map_option JStr p"
    then obtain p where "v = map_option JStr p" ..
    then show "v = None \<or> (\<exists>s. v = Some (JStr s))"
      by (cases p) auto
  next
    assume "v = None \<or> (\<exists>s. v = Some (JStr s))"
    then show "\<exists>p. v = map_option JStr p"
    proof
      assume "v = None"
      then have "v = map_option JStr None" by simp
      then show ?thesis ..
    next
      assume "\<exists>s. v = Some (JStr s)"
      then obtain s where "v = Some (JStr s)" ..
      then have "v = map_option JStr (Some s)" by simp
      then show ?thesis ..
    qed
  qed
  have opt: "(v \<noteq> None \<and> typeof v \<noteq> ''string'') \<longleftrightarrow> \<not> (\<exists>p. v = map_option JStr p)" for v
    unfolding ex by (auto simp: typeof_string_iff)
  have nm: "(typeof v \<noteq> ''string'' \<or> trim (string_of v) = []) \<longleftrightarrow>
      \<not> (\<exists>s. v = Some (JStr s) \<and> trim s \<noteq> [])" for v
    by (auto simp: typeof_string_iff string_of_def)
  show ?thesis
    unfolding validateGuest_def opt nm by auto
qed

lemma valid_body_fields:
  assumes "body_name b = Some (JStr s)" "trim s \<noteq> []" "body_phone b = map_option JStr p"
    "body_email b = map_option JStr e" "body_address b = map_option JStr a"
  shows "validateGuest b = []" "string_of (body_name b) = s" "or_null (body_phone b) = p"
    "or_null (body_email b) = e" "or_null (body_address b) = a"
  using assms valid_body_iff [of b]
  by (auto simp: string_of_def or_null_def split: option.splits)

section \<open>Text as the database stores it\<close>

text \<open>
  The row that an INSERT or an UPDATE writes holds each string as \<open>utf8_text\<close> leaves it.
  A surrogate is no white space, and neither is U+FFFD, so a name that is not empty after
  trimming is stored as a name that is not empty after trimming.
\<close>

lemma stored_sel [simp]:
  "guestid (stored k n p e a) = k"
  "name (stored k n p e a) = utf8_text n"
  "phone (stored k n p e a) = map_option utf8_text p"
  "email (stored k n p e a) = map_option utf8_text e"
  "address (stored k n p e a) = map_option utf8_text a"
  by (simp_all add: stored_def)

lemma surrogate_not_space:
  "isHighSurrogate c \<or> isLowSurrogate c \<Longrightarrow> \<not> isWhiteSpace c"
  by (auto simp: isHighSurrogate_def isLowSurrogate_def isWhiteSpace_def word_le_nat_alt)

lemma replacement_not_space: "\<not> isWhiteSpace 0xFFFD"
  by (simp add: isWhiteSpace_def)

lemma utf8_text_spaces: "list_all isWhiteSpace (utf8_text s) \<longleftrightarrow> list_all isWhiteSpace s"
  by (induction s rule: utf8_text.induct)
     (auto simp: surrogate_not_space replacement_not_space)

lemma trim_utf8_text_empty: "trim (utf8_text s) = [] \<longleftrightarrow> trim s = []"
  by (simp add: trim_empty_iff utf8_text_spaces)

lemma utf8_text_well_formed:
  "list_all (\<lambda>c. \<not> isHighSurrogate c \<and> \<not> isLowSurrogate c) s \<Longrightarrow> utf8_text s = s"
  by (induction s rule: utf8_text.induct) auto

lemma row_to_js_stored:
  "row_to_js (stored k n p e a) =
     \<lparr>guestid = int64_to_number k, name = utf8_text n, phone = map_option utf8_text p,
      email = map_option utf8_text e, address = map_option utf8_text a\<rparr>"
  by (simp add: row_to_js_def)

section \<open>Path values\<close>

text \<open>
  \<open>decimal k\<close> is the path value that writes the integer \<open>k\<close> in decimal digits. \<open>Number\<close>
  reads it back as \<open>k\<close> when \<open>0 \<le> k \<le> 2 ^ 53\<close>. Above that bound the value read is the
  nearest binary64 number: the path value \<open>9007199254740993\<close> (\<open>2 ^ 53 + 1\<close>) is read as
  \<open>2 ^ 53\<close>, and \<open>1.0000000000000001\<close> is read as 1.
\<close>

lemma digit_cases: "0 \<le> d \<Longrightarrow> d < 10 \<Longrightarrow> d \<in> {0, 1, 2, 3, 4, 5, 6, 7, 8, 9 :: int}"
  by simp presburger

lemma digit_of_digit_char: "0 \<le> d \<Longrightarrow> d < 10 \<Longrightarrow> digit_of (digit_char d) = Some d"
  using digit_cases [of d] by (auto simp: digit_of_def digit_char_def)

lemma isDigit_digit_char: "0 \<le> d \<Longrightarrow> d < 10 \<Longrightarrow> isDigit (digit_char d)"
  using digit_cases [of d] by (auto simp: isDigit_def digit_char_def)

lemma isDigit_not_space: "isDigit c \<Longrightarrow> \<not> isWhiteSpace c"
  by (auto simp: isDigit_def isWhiteSpace_def word_le_nat_alt)

lemma decimal_digits: "0 \<le> n \<Longrightarrow> list_all isDigit (decimal n) \<and> decimal n \<noteq> []"
proof (induction n rule: decimal.induct)
  case (1 n)
  show ?case
  proof (cases "n < 10")
    case True
    with "1.prems" show ?thesis
      by (subst (1 2) decimal.simps) (simp add: isDigit_digit_char)
  next
    case False
    then have "0 \<le> n div 10" by simp
    with "1.IH" False have "list_all isDigit (decimal (n div 10))" by simp
    moreover have "isDigit (digit_char (n mod 10))"
      by (rule isDigit_digit_char) simp_all
    ultimately show ?thesis
      using False by (subst (1 2) decimal.simps) simp
  qed
qed

lemma digits_value_snoc:
  "digits_value b (ds @ [c]) = b * digits_value b ds + the (digit_of c)"
  by (simp add: digits_value_def)

lemma digits_value_decimal: "0 \<le> n \<Longrightarrow> digits_value 10 (decimal n) = n"
proof (induction n rule: decimal.induct)
  case (1 n)
  show ?case
  proof (cases "n < 10")
    case True
    with "1.prems" show ?thesis
      by (subst decimal.simps) (simp add: digits_value_def digit_of_digit_char)
  next
    case False
    then have "0 \<le> n div 10" by simp
    with "1.IH" False have "digits_value 10 (decimal (n div 10)) = n div 10" by simp
    moreover have "digit_of (digit_char (n mod 10)) = Some (n mod 10)"
      by (rule digit_of_digit_char) simp_all
    ultimately show ?thesis
      using False by (subst decimal.simps) (simp add: digits_value_snoc)
  qed
qed

lemma dropWhile_none: "list_all (\<lambda>c. \<not> P c) s \<Longrightarrow> dropWhile P s = s"
  by (cases s) simp_all

lemma trim_digits: "list_all isDigit s \<Longrightarrow> trim s = s"
proof -
  assume "list_all isDigit s"
  then have ns: "list_all (\<lambda>c. \<not> isWhiteSpace c) s"
    by (simp add: list_all_iff isDigit_not_space)
  then have "list_all (\<lambda>c. \<not> isWhiteSpace c) (rev s)"
    by (simp add: list_all_iff)
  with ns show ?thesis
    by (simp add: trim_def dropWhile_none)
qed

lemma parse_non_decimal_digits: "list_all isDigit s \<Longrightarrow> parse_non_decimal s = None"
proof (cases s)
  case Nil
  then show ?thesis by (simp add: parse_non_decimal_def)
next
  case (Cons z t)
  assume d: "list_all isDigit s"
  show ?thesis
  proof (cases t)
    case Nil
    with Cons show ?thesis by (simp add: parse_non_decimal_def)
  next
    case (Cons x ds)
    with d \<open>s = z # t\<close> have "isDigit x" by simp
    then have "x \<noteq> 0x78" "x \<noteq> 0x58" "x \<noteq> 0x6F" "x \<noteq> 0x4F" "x \<noteq> 0x62" "x \<noteq> 0x42"
      by (auto simp: isDigit_def)
    with Cons \<open>s = z # t\<close> show ?thesis
      by (simp add: parse_non_decimal_def)
  qed
qed

lemma parse_decimal_digits:
  assumes "list_all isDigit s" and "s \<noteq> []"
  shows "parse_decimal s = to_double (of_int (digits_value 10 s))"
proof -
  from assms have "isDigit (hd s)"
    by (cases s) simp_all
  then have sign: "hd s \<noteq> 0x2D" "hd s \<noteq> 0x2B"
    by (auto simp: isDigit_def)
  have "\<not> list_all isDigit (js ''Infinity'')"
    by (simp add: js_def isDigit_def)
  with assms(1) have inf: "s \<noteq> js ''Infinity''"
    by auto
  from assms(1) have tw: "takeWhile isDigit s = s" "dropWhile isDigit s = []"
    by (simp_all add: list_all_iff takeWhile_eq_all_conv dropWhile_eq_Nil_conv)
  have "parse_unsigned_decimal s = Some (of_int (digits_value 10 s))"
    using assms(2) by (simp add: parse_unsigned_decimal_def tw parse_exponent_def pow10_def)
  with sign inf assms(2) show ?thesis
    by (simp add: parse_decimal_def)
qed

lemma Number_decimal:
  assumes "0 \<le> k" and "k \<le> 2 ^ 53"
  shows "Number (decimal k) = Double (of_int k)"
proof -
  from assms(1) have d: "list_all isDigit (decimal k)" "decimal k \<noteq> []"
    using decimal_digits by simp_all
  from assms have "to_double (of_int k) = Double (of_int k)"
    by (intro to_double_int_exact) simp
  with d assms(1) show ?thesis
    by (simp add: Number_def trim_digits parse_non_decimal_digits parse_decimal_digits
        digits_value_decimal)
qed

lemma decimal_7: "decimal 7 = js ''7''"
  by (simp add: decimal.simps digit_char_def js_def)

lemma decimal_big: "decimal 9007199254740992 = js ''9007199254740992''"
  by (simp add: decimal.simps digit_char_def js_def)

lemma Number_2_53_1: "Number (js ''9007199254740993'') = Double 9007199254740992"
  by (simp add: string_eval Number_def parse_non_decimal_def parse_decimal_def
      parse_unsigned_decimal_def parse_exponent_def isDigit_def digit_of_def digits_value_def
      pow10_def to_double_2_53_1)

lemma to_double_near_1: "to_double (10000000000000001 / 10000000000000000) = Double 1"
proof -
  have "coprime (10000000000000000 + 1) (10000000000000000 :: int)"
    by (rule coprime_add_one_left)
  then have "coprime 10000000000000001 (10000000000000000 :: int)"
    by simp
  then have fr: "quotient_of (Fract 10000000000000001 10000000000000000) =
      (10000000000000001, 10000000000000000)"
    by (simp add: quotient_of_Fract normalize_stable)
  have eq: "(10000000000000001 / 10000000000000000 :: rat) =
      Fract 10000000000000001 10000000000000000"
    by (simp add: Fract_of_int_quotient)
  have q: "quotient_of (10000000000000001 / 10000000000000000) =
      (10000000000000001, 10000000000000000)"
    unfolding eq by (rule fr)
  have bl: "bit_length 10000000000000001 = 54" "bit_length 10000000000000000 = 54"
    by (simp_all add: bit_length.simps)
  have fl: "floor_log2 (10000000000000001 / 10000000000000000) = 0"
    by (simp add: floor_log2_def q bl pow2_def)
  show ?thesis
    by (simp add: to_double_def fl pow2_def round_half_even_def Let_def floor_rat_numeral_div)
qed

lemma Number_near_1: "Number (js ''1.0000000000000001'') = Double 1"
  by (simp add: string_eval Number_def parse_non_decimal_def parse_decimal_def
      parse_unsigned_decimal_def parse_exponent_def isDigit_def digit_of_def digits_value_def
      pow10_def to_double_near_1)

lemma isPositiveInt_decimal:
  "0 < k \<Longrightarrow> k \<le> 2 ^ 53 \<Longrightarrow> isPositiveInt (Number (decimal k))"
  by (auto simp: Number_decimal isPositiveInt_iff)

section \<open>Reading a guest\<close>

text \<open>
  On the number that the handler reads from the path: 400 when \<open>isPositiveInt\<close> refuses
  it, 404 when no row matches it, and 200 with the matching row otherwise. For a path
  value \<open>decimal k\<close> with \<open>0 < k \<le> 2 ^ 53\<close> the row looked up is the row with \<open>guestid\<close>
  \<open>k\<close>.
\<close>

lemma get_guest_cases:
  "(\<not> isPositiveInt (Number param) \<longrightarrow>
      get_guest db param = ((400, Message ''guestid must be positive integer''), db))
   \<and> (isPositiveInt (Number param) \<and> (\<forall>g\<in>set db. \<not> matches (Number param) g) \<longrightarrow>
        get_guest db param = ((404, Message ''guest not found''), db))
   \<and> (isPositiveInt (Number param) \<and> distinct (map guestid db) \<and> g \<in> set db
        \<and> matches (Number param) g \<longrightarrow>
        get_guest db param = ((200, Row (Some (row_to_js g))), db))"
  by (auto simp: get_guest_def select_guest_None [symmetric] select_guest_unique)

lemma get_guest_decimal:
  assumes "0 < k" and "k \<le> 2 ^ 53"
  shows "k \<notin> guestid ` set db \<Longrightarrow>
      get_guest db (decimal k) = ((404, Message ''guest not found''), db)"
    and "distinct (map guestid db) \<Longrightarrow> g \<in> set db \<Longrightarrow> guestid g = k \<Longrightarrow>
      get_guest db (decimal k) = ((200, Row (Some (row_to_js g))), db)"
proof -
  have n: "Number (decimal k) = Double (of_int k)"
    using assms by (simp add: Number_decimal)
  have pos: "isPositiveInt (Number (decimal k))"
    using assms by (rule isPositiveInt_decimal)
  show "get_guest db (decimal k) = ((404, Message ''guest not found''), db)"
    if "k \<notin> guestid ` set db"
  proof -
    from that have "\<forall>g\<in>set db. \<not> matches (Number (decimal k)) g"
      unfolding n by (metis image_eqI matches_of_int)
    with pos show ?thesis
      using get_guest_cases [of "decimal k" db] by simp
  qed
  show "get_guest db (decimal k) = ((200, Row (Some (row_to_js g))), db)"
    if "distinct (map guestid db)" "g \<in> set db" "guestid g = k"
    using that pos get_guest_cases [of "decimal k" db g] by (simp add: n)
qed

text \<open>
  C7 at its failing inputs. The path value \<open>9007199254740993\<close> parses as the positive
  integer \<open>2 ^ 53 + 1\<close>, but \<open>Number\<close> gives \<open>2 ^ 53\<close>. On a table that holds only guest
  \<open>2 ^ 53\<close>, where no record has the id of the path, GET answers 200 with the record of
  guest \<open>2 ^ 53\<close>; on a table that holds only guest \<open>2 ^ 53 + 1\<close>, where the record exists,
  GET answers 404. And the path value \<open>1.0000000000000001\<close>, which is no integer, is not
  answered with 400: GET answers 200 with the record of guest 1.
\<close>

theorem get_guest_rounds_id:
  "get_guest
     [\<lparr>guestid = 9007199254740992, name = js ''a'', phone = None, email = None, address = None\<rparr>]
     (js ''9007199254740993'') =
   ((200, Row (Some \<lparr>guestid = Double 9007199254740992, name = js ''a'', phone = None,
                     email = None, address = None\<rparr>)),
    [\<lparr>guestid = 9007199254740992, name = js ''a'', phone = None, email = None, address = None\<rparr>])
   \<and> get_guest
     [\<lparr>guestid = 9007199254740993, name = js ''b'', phone = None, email = None, address = None\<rparr>]
     (js ''9007199254740993'') =
   ((404, Message ''guest not found''),
    [\<lparr>guestid = 9007199254740993, name = js ''b'', phone = None, email = None, address = None\<rparr>])
   \<and> get_guest
     [\<lparr>guestid = 1, name = js ''Ann'', phone = None, email = None, address = None\<rparr>]
     (js ''1.0000000000000001'') =
   ((200, Row (Some \<lparr>guestid = Double 1, name = js ''Ann'', phone = None, email = None,
                     address = None\<rparr>)),
    [\<lparr>guestid = 1, name = js ''Ann'', phone = None, email = None, address = None\<rparr>])"
  by (simp add: get_guest_def Number_2_53_1 Number_near_1 isPositiveInt_def isInteger_def
      greater_zero_def select_guest_def matches_def row_to_js_def int64_to_number_def
      to_double_numeral to_double_1)

section \<open>Replacing a guest\<close>

text \<open>
  A PUT whose path number passes \<open>isPositiveInt\<close> and matches no row answers 404 whatever
  the body is; so does a PUT by \<open>decimal k\<close>, \<open>0 < k \<le> 2 ^ 53\<close>, when no row has the
  \<open>guestid\<close> \<open>k\<close>.
\<close>

lemma put_guest_no_match:
  assumes "isPositiveInt (Number param)" and "\<forall>g\<in>set db. \<not> matches (Number param) g"
  shows "put_guest db param body = ((404, Message ''guest not found''), db)"
  using assms by (simp add: put_guest_def select_guest_None [symmetric])

lemma put_guest_unknown_decimal:
  assumes "0 < k" and "k \<le> 2 ^ 53" and "k \<notin> guestid ` set db"
  shows "put_guest db (decimal k) body = ((404, Message ''guest not found''), db)"
proof -
  have "Number (decimal k) = Double (of_int k)"
    using assms by (simp add: Number_decimal)
  with assms(3) have "\<forall>g\<in>set db. \<not> matches (Number (decimal k)) g"
    by (metis image_eqI matches_of_int)
  with assms(1,2) show ?thesis
    by (intro put_guest_no_match isPositiveInt_decimal)
qed

text \<open>
  C4, as the code has it. Let a row with the \<open>guestid\<close> \<open>k\<close>, \<open>0 < k \<le> 2 ^ 53\<close>, be stored,
  and let the body be valid: its name is a string \<open>s\<close> that is not empty after trimming,
  and \<open>phone\<close>, \<open>email\<close>, \<open>address\<close> are strings or absent (\<open>p\<close>, \<open>e\<close>, \<open>a\<close>); its
  \<open>guestid\<close> is arbitrary. Then the PUT by the path value \<open>decimal k\<close> answers 200 with the
  replaced record, and the new table is the old one in which the rows with \<open>guestid\<close> \<open>k\<close>
  have the trimmed name and the three optional values of the body, as the database
  stores text (\<open>utf8_text\<close>: every unpaired surrogate replaced by U+FFFD), \<open>None\<close> (null)
  where the body leaves one out, and still the \<open>guestid\<close> \<open>k\<close>; every other row is
  unchanged.
\<close>

theorem put_guest_replaces:
  assumes "0 < k" and "k \<le> 2 ^ 53" and "k \<in> guestid ` set db"
    and "body_name b = Some (JStr s)" and "trim s \<noteq> []"
    and "body_phone b = map_option JStr p" and "body_email b = map_option JStr e"
    and "body_address b = map_option JStr a"
  shows "put_guest db (decimal k) (Some b) =
    ((200, Row (Some \<lparr>guestid = Double (of_int k), name = utf8_text (trim s),
                      phone = map_option utf8_text p, email = map_option utf8_text e,
                      address = map_option utf8_text a\<rparr>)),
     map (\<lambda>r. if guestid r = k
               then \<lparr>guestid = k, name = utf8_text (trim s), phone = map_option utf8_text p,
                     email = map_option utf8_text e, address = map_option utf8_text a\<rparr>
               else r) db)"
proof -
  have n: "Number (decimal k) = Double (of_int k)"
    using assms(1,2) by (simp add: Number_decimal)
  have pos: "isPositiveInt (Number (decimal k))"
    using assms(1,2) by (rule isPositiveInt_decimal)
  from assms(3) obtain g where "g \<in> set db" "guestid g = k"
    by auto
  then have "select_guest db (Number (decimal k)) \<noteq> None"
    by (auto simp: select_guest_None n)
  then obtain existing where ex: "select_guest db (Number (decimal k)) = Some existing"
    by auto
  have upd: "select_guest
      (map (\<lambda>r. if guestid r = k then stored k (trim s) p e a else r) db)
      (Double (of_int k)) = Some (stored k (trim s) p e a)"
    using find_map_updated [of k guestid db "stored k (trim s) p e a"] assms(3)
    by (simp add: select_guest_def matches_of_int_fun)
  have exact: "int64_to_number k = Double (of_int k)"
    using assms(1,2) by (intro int64_to_number_exact) simp
  have "put_guest db (decimal k) (Some b) =
      ((200, Row (Some (row_to_js (stored k (trim s) p e a)))),
       map (\<lambda>r. if guestid r = k then stored k (trim s) p e a else r) db)"
    using pos ex upd
    by (simp add: put_guest_def valid_body_fields [OF assms(4-8)] update_guest_map n)
  then show ?thesis
    by (simp only: row_to_js_stored exact) (simp add: stored_def)
qed

text \<open>
  The scenario \<open>PUT /api/guests/1\<close> with \<open>{"guestid":9,"name":" Bob "}\<close> on a table that
  holds guest 1 with a phone and guest 2: the phone of guest 1 becomes null, its name
  \<open>Bob\<close>, its \<open>guestid\<close> stays 1, and guest 2 is unchanged.
\<close>

theorem put_guest_replaces_witness:
  "put_guest
     [\<lparr>guestid = 1, name = js ''Ann'', phone = Some (js ''555''), email = None, address = None\<rparr>,
      \<lparr>guestid = 2, name = js ''Cy'', phone = None, email = None, address = None\<rparr>]
     (js ''1'')
     (Some \<lparr>body_guestid = Some (Double 9), body_name = Some (JStr (js '' Bob '')),
            body_phone = None, body_email = None, body_address = None\<rparr>) =
   ((200, Row (Some \<lparr>guestid = Double 1, name = js ''Bob'', phone = None, email = None,
                     address = None\<rparr>)),
    [\<lparr>guestid = 1, name = js ''Bob'', phone = None, email = None, address = None\<rparr>,
     \<lparr>guestid = 2, name = js ''Cy'', phone = None, email = None, address = None\<rparr>])"
proof -
  have d: "decimal 1 = js ''1''"
    by (simp add: decimal.simps digit_char_def js_def)
  have t: "trim (js '' Bob '') = js ''Bob''" "utf8_text (js ''Bob'') = js ''Bob''"
    by (simp_all add: string_eval isHighSurrogate_def isLowSurrogate_def)
  show ?thesis
    using put_guest_replaces [of 1
      "[\<lparr>guestid = 1, name = js ''Ann'', phone = Some (js ''555''), email = None, address = None\<rparr>,
        \<lparr>guestid = 2, name = js ''Cy'', phone = None, email = None, address = None\<rparr>]"
      "\<lparr>body_guestid = Some (Double 9), body_name = Some (JStr (js '' Bob '')),
        body_phone = None, body_email = None, body_address = None\<rparr>"
      "js '' Bob ''" None None None]
    by (simp add: d t) (simp add: js_def)
qed

text \<open>
  C4 as stated fails in three ways. On a table that holds the guests \<open>2 ^ 53\<close> and
  \<open>2 ^ 53 + 1\<close>, the PUT by the path value \<open>9007199254740993\<close> overwrites guest \<open>2 ^ 53\<close>, a
  record with a different \<open>guestid\<close>, and leaves the record at the path id as it was. A
  PUT whose name is a space, \<open>q\<close>, the unpaired surrogate U+DFFF and a space stores \<open>q\<close>
  followed by U+FFFD, which is not the trimmed name: text is stored as UTF-8. And a stored row whose \<open>guestid\<close> is \<open>-5\<close> is
  not replaced by the PUT by the path value \<open>-5\<close>, which answers 400.
\<close>

theorem put_guest_replaces_other_row:
  "put_guest
     [\<lparr>guestid = 9007199254740992, name = js ''a'', phone = None, email = None, address = None\<rparr>,
      \<lparr>guestid = 9007199254740993, name = js ''b'', phone = None, email = None, address = None\<rparr>]
     (js ''9007199254740993'')
     (Some \<lparr>body_guestid = None, body_name = Some (JStr (js ''Bob'')), body_phone = None,
            body_email = None, body_address = None\<rparr>) =
   ((200, Row (Some \<lparr>guestid = Double 9007199254740992, name = js ''Bob'', phone = None,
                     email = None, address = None\<rparr>)),
    [\<lparr>guestid = 9007199254740992, name = js ''Bob'', phone = None, email = None,
       address = None\<rparr>,
     \<lparr>guestid = 9007199254740993, name = js ''b'', phone = None, email = None, address = None\<rparr>])
   \<and> put_guest
     [\<lparr>guestid = 1, name = js ''Ann'', phone = None, email = None, address = None\<rparr>]
     (js ''1'')
     (Some \<lparr>body_guestid = None, body_name = Some (JStr [0x20, 0x71, 0xDFFF, 0x20]),
            body_phone = None, body_email = None, body_address = None\<rparr>) =
   ((200, Row (Some \<lparr>guestid = Double 1, name = [0x71, 0xFFFD], phone = None, email = None,
                     address = None\<rparr>)),
    [\<lparr>guestid = 1, name = [0x71, 0xFFFD], phone = None, email = None, address = None\<rparr>])
   \<and> trim [0x20, 0x71, 0xDFFF, 0x20] = [0x71, 0xDFFF]
   \<and> put_guest
     [\<lparr>guestid = - 5, name = js ''x'', phone = None, email = None, address = None\<rparr>]
     (js ''-5'')
     (Some \<lparr>body_guestid = None, body_name = Some (JStr (js ''Bob'')), body_phone = None,
            body_email = None, body_address = None\<rparr>) =
   ((400, Message ''guestid must be positive integer''),
    [\<lparr>guestid = - 5, name = js ''x'', phone = None, email = None, address = None\<rparr>])"
proof -
  have m5: "Number (js ''-5'') = Double (- 5)"
    by (simp add: string_eval number_eval)
  show ?thesis
    by (simp only: put_guest_def Number_2_53_1 Number_1 m5)
       (simp add: isPositiveInt_def isInteger_def greater_zero_def select_guest_def matches_def
         row_to_js_def int64_to_number_def to_double_numeral to_double_1 update_guest_def
         validate_eval string_eval isHighSurrogate_def isLowSurrogate_def)
qed

text \<open>
  C5 at its failing input. The table holds only guest \<open>2 ^ 53\<close>, so no record has the
  positive-integer id \<open>2 ^ 53 + 1\<close>. The PUT by the path value \<open>9007199254740993\<close> with the
  body \<open>{"name":"Bob"}\<close> does not answer 404: the lookup is made with
  \<open>Number("9007199254740993")\<close>, which is \<open>2 ^ 53\<close>, so the PUT answers 200 and overwrites
  guest \<open>2 ^ 53\<close>.
\<close>

theorem put_guest_rounds_id:
  "put_guest
     [\<lparr>guestid = 9007199254740992, name = js ''a'', phone = None, email = None, address = None\<rparr>]
     (js ''9007199254740993'')
     (Some \<lparr>body_guestid = None, body_name = Some (JStr (js ''Bob'')), body_phone = None,
            body_email = None, body_address = None\<rparr>) =
   ((200, Row (Some \<lparr>guestid = Double 9007199254740992, name = js ''Bob'', phone = None,
                     email = None, address = None\<rparr>)),
    [\<lparr>guestid = 9007199254740992, name = js ''Bob'', phone = None, email = None,
       address = None\<rparr>])"
  by (simp only: put_guest_def Number_2_53_1)
     (simp add: isPositiveInt_def isInteger_def greater_zero_def select_guest_def matches_def
       row_to_js_def int64_to_number_def to_double_numeral update_guest_def
       validate_eval string_eval isHighSurrogate_def isLowSurrogate_def)

section \<open>Deleting a guest\<close>

text \<open>
  On the number that the handler reads from the path, once \<open>isPositiveInt\<close> accepts it:
  200 and the table without the matching rows when a row matches, 404 and the same table
  when none does. For a path value \<open>decimal k\<close> with \<open>0 < k \<le> 2 ^ 53\<close> the rows removed
  are the rows with \<open>guestid\<close> \<open>k\<close>.
\<close>

lemma delete_guest_found:
  assumes "isPositiveInt (Number param)" and "\<exists>g\<in>set db. matches (Number param) g"
  shows "delete_guest db param =
    ((200, Message ''deleted''), filter (\<lambda>g. \<not> matches (Number param) g) db)"
proof -
  from assms(2) have "filter (matches (Number param)) db \<noteq> []"
    by (simp add: filter_empty_conv)
  with assms(1) show ?thesis
    by (simp add: delete_guest_def delete_guest_row_def)
qed

lemma delete_guest_missing:
  assumes "isPositiveInt (Number param)" and "\<forall>g\<in>set db. \<not> matches (Number param) g"
  shows "delete_guest db param = ((404, Message ''guest not found''), db)"
proof -
  from assms(2) have "filter (matches (Number param)) db = []"
    "filter (\<lambda>g. \<not> matches (Number param) g) db = db"
    by (simp_all add: filter_empty_conv filter_id_conv)
  with assms(1) show ?thesis
    by (simp add: delete_guest_def delete_guest_row_def)
qed

lemma delete_guest_decimal:
  assumes "0 < k" and "k \<le> 2 ^ 53"
  shows "k \<in> guestid ` set db \<Longrightarrow>
      delete_guest db (decimal k) =
        ((200, Message ''deleted''), filter (\<lambda>g. guestid g \<noteq> k) db)"
    and "k \<notin> guestid ` set db \<Longrightarrow>
      delete_guest db (decimal k) = ((404, Message ''guest not found''), db)"
proof -
  have n: "Number (decimal k) = Double (of_int k)"
    using assms by (simp add: Number_decimal)
  have pos: "isPositiveInt (Number (decimal k))"
    using assms by (rule isPositiveInt_decimal)
  show "delete_guest db (decimal k) =
      ((200, Message ''deleted''), filter (\<lambda>g. guestid g \<noteq> k) db)"
    if "k \<in> guestid ` set db"
  proof -
    from that have "\<exists>g\<in>set db. matches (Number (decimal k)) g"
      unfolding n by auto
    with pos show ?thesis
      by (simp add: delete_guest_found n)
  qed
  show "delete_guest db (decimal k) = ((404, Message ''guest not found''), db)"
    if "k \<notin> guestid ` set db"
  proof -
    from that have "\<forall>g\<in>set db. \<not> matches (Number (decimal k)) g"
      unfolding n by (metis image_eqI matches_of_int)
    with pos show ?thesis
      by (rule delete_guest_missing)
  qed
qed

text \<open>
  C6 at its failing inputs. On a table that holds the guests \<open>2 ^ 53\<close> and \<open>2 ^ 53 + 1\<close>, the
  DELETE by the path value \<open>9007199254740993\<close> answers 200, removes guest \<open>2 ^ 53\<close> and
  leaves the row of the id \<open>2 ^ 53 + 1\<close> in the table. On a table that holds only guest
  \<open>2 ^ 53 + 1\<close>, where the record of that id exists, the first DELETE by that path value
  answers 404 and removes nothing.
\<close>

theorem delete_guest_rounds_id:
  "delete_guest
     [\<lparr>guestid = 9007199254740992, name = js ''a'', phone = None, email = None, address = None\<rparr>,
      \<lparr>guestid = 9007199254740993, name = js ''b'', phone = None, email = None, address = None\<rparr>]
     (js ''9007199254740993'') =
   ((200, Message ''deleted''),
    [\<lparr>guestid = 9007199254740993, name = js ''b'', phone = None, email = None, address = None\<rparr>])
   \<and> delete_guest
     [\<lparr>guestid = 9007199254740993, name = js ''b'', phone = None, email = None, address = None\<rparr>]
     (js ''9007199254740993'') =
   ((404, Message ''guest not found''),
    [\<lparr>guestid = 9007199254740993, name = js ''b'', phone = None, email = None, address = None\<rparr>])"
  by (simp add: delete_guest_def delete_guest_row_def Number_2_53_1 isPositiveInt_def
      isInteger_def greater_zero_def matches_def)

section \<open>Error responses\<close>

text \<open>
  A path number that \<open>isPositiveInt\<close> refuses gives 400 with the table untouched; the
  path values \<open>0\<close>, \<open>-1\<close> and \<open>abc\<close> give such numbers. No response with a status other
  than the handler's success status changes the table, so every response with status
  400, 404 or 500 leaves the table as it was.
\<close>

lemma bad_id_get:
  "\<not> isPositiveInt (Number param) \<Longrightarrow>
     get_guest db param = ((400, Message ''guestid must be positive integer''), db)"
  by (simp add: get_guest_def)

lemma bad_id_put:
  "\<not> isPositiveInt (Number param) \<Longrightarrow>
     put_guest db param body = ((400, Message ''guestid must be positive integer''), db)"
  by (simp add: put_guest_def)

lemma bad_id_delete:
  "\<not> isPositiveInt (Number param) \<Longrightarrow>
     delete_guest db param = ((400, Message ''guestid must be positive integer''), db)"
  by (simp add: delete_guest_def)

lemma bad_id_examples:
  "\<not> isPositiveInt (Number (js ''0''))" "\<not> isPositiveInt (Number (js ''-1''))"
  "\<not> isPositiveInt (Number (js ''abc''))"
  by (simp_all add: Number_0 Number_minus1 Number_abc isPositiveInt_def isInteger_def
      greater_zero_def)

lemma get_guest_table: "snd (get_guest db param) = db"
  by (simp add: get_guest_def Let_def split: option.splits)

lemma post_guests_error:
  "fst (fst (post_guests draws db body)) \<noteq> 201 \<Longrightarrow> snd (post_guests draws db body) = db"
  by (auto simp: post_guests_def Let_def split: option.splits sum.splits if_splits)

lemma put_guest_error:
  "fst (fst (put_guest db param body)) \<noteq> 200 \<Longrightarrow> snd (put_guest db param body) = db"
  by (auto simp: put_guest_def Let_def split: option.splits if_splits)

lemma delete_guest_error:
  "fst (fst (delete_guest db param)) \<noteq> 200 \<Longrightarrow> snd (delete_guest db param) = db"
  by (auto simp: delete_guest_def delete_guest_row_def Let_def filter_id_conv filter_empty_conv
      split: if_splits)

lemma app_error:
  "fst (fst (app db req)) \<in> {400, 404, 500} \<Longrightarrow> snd (app db req) = db"
proof (cases req)
  case GET_guests
  then show ?thesis by (simp add: get_guests_def)
next
  case (GET_guest param)
  then show ?thesis by (simp add: get_guest_table)
next
  case (POST_guests body draws)
  assume "fst (fst (app db req)) \<in> {400, 404, 500}"
  with POST_guests have "fst (fst (post_guests draws db body)) \<noteq> 201" by auto
  with POST_guests show ?thesis by (simp add: post_guests_error)
next
  case (PUT_guest param body)
  assume "fst (fst (app db req)) \<in> {400, 404, 500}"
  with PUT_guest have "fst (fst (put_guest db param body)) \<noteq> 200" by auto
  with PUT_guest show ?thesis by (simp add: put_guest_error)
next
  case (DELETE_guest param)
  assume "fst (fst (app db req)) \<in> {400, 404, 500}"
  with DELETE_guest have "fst (fst (delete_guest db param)) \<noteq> 200" by auto
  with DELETE_guest show ?thesis by (simp add: delete_guest_error)
qed

text \<open>
  C8 at its failing input. The path value \<open>1.0000000000000001\<close> is not an integer, but
  \<open>Number\<close> gives 1 and \<open>isPositiveInt\<close> accepts it. On a table that holds guest 1, GET,
  PUT and DELETE do not answer 400: GET answers 200 with guest 1, PUT answers 200 and
  overwrites guest 1, DELETE answers 200 and removes guest 1.
\<close>

theorem near_integer_id_accepted:
  "get_guest
     [\<lparr>guestid = 1, name = js ''Ann'', phone = None, email = None, address = None\<rparr>]
     (js ''1.0000000000000001'') =
   ((200, Row (Some \<lparr>guestid = Double 1, name = js ''Ann'', phone = None, email = None,
                     address = None\<rparr>)),
    [\<lparr>guestid = 1, name = js ''Ann'', phone = None, email = None, address = None\<rparr>])
   \<and> put_guest
     [\<lparr>guestid = 1, name = js ''Ann'', phone = None, email = None, address = None\<rparr>]
     (js ''1.0000000000000001'')
     (Some \<lparr>body_guestid = None, body_name = Some (JStr (js ''Bob'')), body_phone = None,
            body_email = None, body_address = None\<rparr>) =
   ((200, Row (Some \<lparr>guestid = Double 1, name = js ''Bob'', phone = None, email = None,
                     address = None\<rparr>)),
    [\<lparr>guestid = 1, name = js ''Bob'', phone = None, email = None, address = None\<rparr>])
   \<and> delete_guest
     [\<lparr>guestid = 1, name = js ''Ann'', phone = None, email = None, address = None\<rparr>]
     (js ''1.0000000000000001'') =
   ((200, Message ''deleted''), [])"
  by (simp only: get_guest_def put_guest_def delete_guest_def Number_near_1)
     (simp add: isPositiveInt_def isInteger_def greater_zero_def select_guest_def matches_def
       row_to_js_def int64_to_number_def to_double_1 update_guest_def delete_guest_row_def
       validate_eval string_eval isHighSurrogate_def isLowSurrogate_def)

section \<open>Creating a guest\<close>

text \<open>
  A create with a valid body answers 500 when the INSERT throws, and otherwise 201 with
  the row it reads back; the new table is the old one with the new row, whose name is the
  trimmed name of the body.
\<close>

lemma post_guests_valid:
  assumes "body_name b = Some (JStr s)" and "trim s \<noteq> []"
    and "body_phone b = map_option JStr p" and "body_email b = map_option JStr e"
    and "body_address b = map_option JStr a"
  shows "post_guests draws db (Some b) =
    (case insert_rowid draws db (body_guestid b) of
       Inl err \<Rightarrow> ((500, Error ''internal error'' err), db)
     | Inr k \<Rightarrow>
         ((201, Row (map_option row_to_js
             (select_guest
                (insort_key guestid
                   (stored k (trim s) p e a) db)
                (case body_guestid b of None \<Rightarrow> int64_to_number k | Some n \<Rightarrow> n)))),
          insort_key guestid (stored k (trim s) p e a) db))"
  by (simp add: post_guests_def valid_body_fields [OF assms] insert_guest_def split: sum.splits)

text \<open>
  C1, as the code has it. Take a valid body. If it supplies no \<open>guestid\<close> and the
  database assigns the rowid \<open>k\<close> with \<open>\<bar>k\<bar> \<le> 2 ^ 53\<close>, the create answers 201 with the
  created row, and the \<open>guestid\<close> returned is \<open>k\<close>. If it supplies a positive integer
  \<open>k\<close> below \<open>2 ^ 63 - 1\<close> that no row has, the create answers 201 with the created row,
  and a GET by a path value that denotes \<open>k\<close> on the new table answers 200 with the
  same record; \<open>phone\<close>, \<open>email\<close> and \<open>address\<close> are \<open>None\<close> (null) where the body leaves
  them out.
\<close>

theorem create_then_get:
  assumes "body_name b = Some (JStr s)" and "trim s \<noteq> []"
    and "body_phone b = map_option JStr p" and "body_email b = map_option JStr e"
    and "body_address b = map_option JStr a"
  shows
    "(body_guestid b = None \<and> new_rowid draws db = Inr k \<and> \<bar>k\<bar> \<le> 2 ^ 53 \<longrightarrow>
        post_guests draws db (Some b) =
          ((201, Row (Some \<lparr>guestid = Double (of_int k), name = utf8_text (trim s),
                            phone = map_option utf8_text p, email = map_option utf8_text e,
                            address = map_option utf8_text a\<rparr>)),
           insort_key guestid
             (stored k (trim s) p e a) db))
     \<and> (body_guestid b = Some (Double (of_int k)) \<and> 0 < k \<and> k < 2 ^ 63 - 1
          \<and> k \<notin> guestid ` set db \<and> Number param = Double (of_int k) \<longrightarrow>
          post_guests draws db (Some b) =
            ((201, Row (Some (row_to_js
                (stored k (trim s) p e a)))),
             insort_key guestid
               (stored k (trim s) p e a) db)
          \<and> get_guest
               (insort_key guestid
                  (stored k (trim s) p e a) db) param =
            ((200, Row (Some (row_to_js
                (stored k (trim s) p e a)))),
             insort_key guestid
               (stored k (trim s) p e a) db))"
proof (intro conjI impI)
  assume h: "body_guestid b = None \<and> new_rowid draws db = Inr k \<and> \<bar>k\<bar> \<le> 2 ^ 53"
  then have "k \<notin> guestid ` set db"
    using new_rowid_fresh by blast
  with h show "post_guests draws db (Some b) =
      ((201, Row (Some \<lparr>guestid = Double (of_int k), name = utf8_text (trim s),
                        phone = map_option utf8_text p, email = map_option utf8_text e,
                        address = map_option utf8_text a\<rparr>)),
       insort_key guestid (stored k (trim s) p e a) db)"
    by (simp add: post_guests_valid [OF assms] insert_rowid_def int64_to_number_exact
        select_insort_new row_to_js_def)
next
  assume h: "body_guestid b = Some (Double (of_int k)) \<and> 0 < k \<and> k < 2 ^ 63 - 1
      \<and> k \<notin> guestid ` set db \<and> Number param = Double (of_int k)"
  then have row: "rowid_of_real (of_int k) = Some k"
    by (intro rowid_of_real_int) simp_all
  with h show "post_guests draws db (Some b) =
      ((201, Row (Some (row_to_js
          (stored k (trim s) p e a)))),
       insort_key guestid (stored k (trim s) p e a) db)"
    by (simp add: post_guests_valid [OF assms] insert_rowid_def select_insort_new)
  from h have "isPositiveInt (Number param)"
    by (auto simp: isPositiveInt_iff)
  with h show "get_guest
      (insort_key guestid (stored k (trim s) p e a) db)
      param =
      ((200, Row (Some (row_to_js
          (stored k (trim s) p e a)))),
       insort_key guestid (stored k (trim s) p e a) db)"
    by (simp add: get_guest_def select_insort_new)
qed

text \<open>
  The scenario \<open>POST {"name":"Alice","phone":"555-1"}\<close> on the empty table, the same body
  with \<open>"guestid":7\<close>, and \<open>GET /api/guests/7\<close> after it.
\<close>

theorem create_then_get_witness:
  "post_guests (\<lambda>_. 0) []
     (Some \<lparr>body_guestid = None, body_name = Some (JStr (js ''Alice'')),
            body_phone = Some (JStr (js ''555-1'')), body_email = None, body_address = None\<rparr>) =
   ((201, Row (Some \<lparr>guestid = Double 1, name = js ''Alice'', phone = Some (js ''555-1''),
                     email = None, address = None\<rparr>)),
    [\<lparr>guestid = 1, name = js ''Alice'', phone = Some (js ''555-1''), email = None,
       address = None\<rparr>])
   \<and> post_guests (\<lambda>_. 0) []
     (Some \<lparr>body_guestid = Some (Double 7), body_name = Some (JStr (js ''Alice'')),
            body_phone = Some (JStr (js ''555-1'')), body_email = None, body_address = None\<rparr>) =
   ((201, Row (Some \<lparr>guestid = Double 7, name = js ''Alice'', phone = Some (js ''555-1''),
                     email = None, address = None\<rparr>)),
    [\<lparr>guestid = 7, name = js ''Alice'', phone = Some (js ''555-1''), email = None,
       address = None\<rparr>])
   \<and> get_guest
     [\<lparr>guestid = 7, name = js ''Alice'', phone = Some (js ''555-1''), email = None,
       address = None\<rparr>] (js ''7'') =
   ((200, Row (Some \<lparr>guestid = Double 7, name = js ''Alice'', phone = Some (js ''555-1''),
                     email = None, address = None\<rparr>)),
    [\<lparr>guestid = 7, name = js ''Alice'', phone = Some (js ''555-1''), email = None,
       address = None\<rparr>])"
proof -
  have t: "trim (js ''Alice'') = js ''Alice''" "utf8_text (js ''Alice'') = js ''Alice''"
    "utf8_text (js ''555-1'') = js ''555-1''"
    by (simp_all add: string_eval isHighSurrogate_def isLowSurrogate_def)
  have e: "js ''Alice'' \<noteq> []"
    by (simp add: js_def)
  show ?thesis
    using create_then_get [of
        "\<lparr>body_guestid = None, body_name = Some (JStr (js ''Alice'')),
          body_phone = Some (JStr (js ''555-1'')), body_email = None, body_address = None\<rparr>"
        "js ''Alice''" "Some (js ''555-1'')" None None "\<lambda>_. 0" "[]" 1 "js ''1''"]
      create_then_get [of
        "\<lparr>body_guestid = Some (Double 7), body_name = Some (JStr (js ''Alice'')),
          body_phone = Some (JStr (js ''555-1'')), body_email = None, body_address = None\<rparr>"
        "js ''Alice''" "Some (js ''555-1'')" None None "\<lambda>_. 0" "[]" 7 "js ''7''"]
    by (simp add: Number_7 new_rowid_def row_to_js_def stored_def int64_to_number_def to_double_numeral t e)
qed

text \<open>
  C1 as stated fails in two ways. After a create with \<open>"guestid":9007199254740992\<close>
  (\<open>2 ^ 53\<close>), a create without \<open>guestid\<close> is assigned \<open>2 ^ 53 + 1\<close>;
  \<open>Number(info.lastInsertRowid)\<close> is \<open>2 ^ 53\<close>, so the row read back and returned is the
  older guest, whose \<open>guestid\<close> is not the assigned one. And a create with the positive
  integer \<open>1e30\<close> as \<open>guestid\<close>, which no row has, answers 500 (the rowid is a 64-bit
  integer), and GET by that id answers 404.
\<close>

theorem create_loses_id:
  "post_guests (\<lambda>_. 0) []
     (Some \<lparr>body_guestid = Some (Double 9007199254740992), body_name = Some (JStr (js ''a'')),
            body_phone = None, body_email = None, body_address = None\<rparr>) =
   ((201, Row (Some \<lparr>guestid = Double 9007199254740992, name = js ''a'', phone = None,
                     email = None, address = None\<rparr>)),
    [\<lparr>guestid = 9007199254740992, name = js ''a'', phone = None, email = None, address = None\<rparr>])
   \<and> post_guests (\<lambda>_. 0)
     [\<lparr>guestid = 9007199254740992, name = js ''a'', phone = None, email = None, address = None\<rparr>]
     (Some \<lparr>body_guestid = None, body_name = Some (JStr (js ''b'')), body_phone = None,
            body_email = None, body_address = None\<rparr>) =
   ((201, Row (Some \<lparr>guestid = Double 9007199254740992, name = js ''a'', phone = None,
                     email = None, address = None\<rparr>)),
    [\<lparr>guestid = 9007199254740992, name = js ''a'', phone = None, email = None, address = None\<rparr>,
     \<lparr>guestid = 9007199254740993, name = js ''b'', phone = None, email = None, address = None\<rparr>])
   \<and> post_guests (\<lambda>_. 0) []
     (Some \<lparr>body_guestid = Some (Double 1000000000000000019884624838656),
            body_name = Some (JStr (js ''c'')), body_phone = None, body_email = None,
            body_address = None\<rparr>) =
   ((500, Error ''internal error'' Datatype_mismatch), [])
   \<and> get_guest [] (js ''1e30'') = ((404, Message ''guest not found''), [])"
proof -
  have "get_guest [] (js ''1e30'') = ((404, Message ''guest not found''), [])"
    by (simp add: get_guest_def Number_1e30 isPositiveInt_def isInteger_def greater_zero_def
        select_guest_def)
  then show ?thesis
    by (simp add: post_guests_def validate_eval string_eval table_eval to_double_numeral
        to_double_2_53_1)
qed

text \<open>
  C9 at its failing input. On a table holding guest \<open>2 ^ 53\<close> named \<open>a\<close>, the create
  \<open>POST {"name":" b "}\<close> stores the trimmed name \<open>b\<close> under the rowid \<open>2 ^ 53 + 1\<close> (see
  \<open>post_guests_valid\<close>), but the record it returns is read back by the rounded id and is
  guest \<open>2 ^ 53\<close>: the returned name is \<open>a\<close>, not the trimmed input name.
\<close>

theorem create_returns_other_row:
  "post_guests (\<lambda>_. 0)
     [\<lparr>guestid = 9007199254740992, name = js ''a'', phone = None, email = None, address = None\<rparr>]
     (Some \<lparr>body_guestid = None, body_name = Some (JStr (js '' b '')), body_phone = None,
            body_email = None, body_address = None\<rparr>) =
   ((201, Row (Some \<lparr>guestid = Double 9007199254740992, name = js ''a'', phone = None,
                     email = None, address = None\<rparr>)),
    [\<lparr>guestid = 9007199254740992, name = js ''a'', phone = None, email = None, address = None\<rparr>,
     \<lparr>guestid = 9007199254740993, name = trim (js '' b ''), phone = None, email = None,
        address = None\<rparr>])
   \<and> trim (js '' b '') = js ''b''"
  by (simp add: post_guests_def validate_eval string_eval table_eval to_double_numeral
      to_double_2_53_1)

section \<open>The invariants over sequences of requests\<close>

lemma post_guests_table:
  "snd (post_guests draws db body) = db
   \<or> (\<exists>b k s p e a. body = Some b \<and> insert_rowid draws db (body_guestid b) = Inr k
        \<and> trim s \<noteq> []
        \<and> snd (post_guests draws db body) =
            insort_key guestid (stored k (trim s) p e a) db)"
proof (cases body)
  case None
  then show ?thesis by (simp add: post_guests_def)
next
  case (Some b)
  show ?thesis
  proof (cases "validateGuest b = []")
    case False
    with Some show ?thesis by (simp add: post_guests_def)
  next
    case True
    then obtain s p e a where v: "body_name b = Some (JStr s)" "trim s \<noteq> []"
      "body_phone b = map_option JStr p" "body_email b = map_option JStr e"
      "body_address b = map_option JStr a"
      unfolding valid_body_iff by blast
    show ?thesis
    proof (cases "insert_rowid draws db (body_guestid b)")
      case (Inl err)
      with Some show ?thesis by (simp add: post_guests_valid [OF v])
    next
      case (Inr k)
      with Some v(2) show ?thesis by (auto simp: post_guests_valid [OF v])
    qed
  qed
qed

lemma put_guest_table:
  "snd (put_guest db param body) = db
   \<or> (\<exists>s p e a. trim s \<noteq> []
        \<and> snd (put_guest db param body) = update_guest db (trim s) p e a (Number param))"
proof (cases "\<exists>b. body = Some b \<and> validateGuest b = []")
  case False
  then have "snd (put_guest db param body) = db"
    by (cases body) (auto simp: put_guest_def Let_def split: option.splits)
  then show ?thesis ..
next
  case True
  then obtain b where b: "body = Some b" "validateGuest b = []" by blast
  then obtain s where "body_name b = Some (JStr s)" "trim s \<noteq> []"
    unfolding valid_body_iff by blast
  then have "string_of (body_name b) = s" "trim s \<noteq> []"
    by (simp_all add: string_of_def)
  with b show ?thesis
    by (auto simp: put_guest_def Let_def split: option.splits)
qed

lemma delete_guest_table:
  "snd (delete_guest db param) = db
   \<or> snd (delete_guest db param) = filter (\<lambda>g. \<not> matches (Number param) g) db"
  by (simp add: delete_guest_def delete_guest_row_def Let_def)

lemma distinct_map_insort_key:
  "distinct (map f (insort_key f x xs)) \<longleftrightarrow> f x \<notin> f ` set xs \<and> distinct (map f xs)"
  by (induction xs) (auto simp: set_insort_key)

lemma guestid_update_guest: "map guestid (update_guest db n p e a v) = map guestid db"
  by (induction db) (simp_all add: update_guest_def)

text \<open>
  Every request keeps the ids unique and the names non-empty after trimming; it keeps the
  ids positive when it is not a create that supplies a \<open>guestid\<close> other than a positive
  integer.
\<close>

lemma unique_ids_app: "unique_ids db \<Longrightarrow> unique_ids (snd (app db req))"
proof (cases req)
  case GET_guests
  then show "unique_ids db \<Longrightarrow> ?thesis" by (simp add: get_guests_def)
next
  case (GET_guest param)
  then show "unique_ids db \<Longrightarrow> ?thesis" by (simp add: get_guest_table)
next
  case (POST_guests body draws)
  assume "unique_ids db"
  with post_guests_table [of draws db body] POST_guests show ?thesis
    by (auto simp: unique_ids_def distinct_map_insort_key dest: insert_rowid_fresh)
next
  case (PUT_guest param body)
  assume "unique_ids db"
  with put_guest_table [of db param body] PUT_guest show ?thesis
    by (auto simp: unique_ids_def guestid_update_guest)
next
  case (DELETE_guest param)
  assume "unique_ids db"
  with delete_guest_table [of db param] DELETE_guest show ?thesis
    by (auto simp: unique_ids_def distinct_map_filter)
qed

lemma trim_stored_name: "trim s \<noteq> [] \<Longrightarrow> trim (utf8_text (trim s)) \<noteq> []"
  by (simp add: trim_utf8_text_empty trim_idem)

lemma names_nonempty_app: "names_nonempty db \<Longrightarrow> names_nonempty (snd (app db req))"
proof (cases req)
  case GET_guests
  then show "names_nonempty db \<Longrightarrow> ?thesis" by (simp add: get_guests_def)
next
  case (GET_guest param)
  then show "names_nonempty db \<Longrightarrow> ?thesis" by (simp add: get_guest_table)
next
  case (POST_guests body draws)
  assume "names_nonempty db"
  with post_guests_table [of draws db body] POST_guests show ?thesis
    by (auto simp: names_nonempty_def list_all_iff set_insort_key trim_stored_name)
next
  case (PUT_guest param body)
  assume "names_nonempty db"
  with put_guest_table [of db param body] PUT_guest show ?thesis
    by (auto simp: names_nonempty_def list_all_iff update_guest_def trim_stored_name)
next
  case (DELETE_guest param)
  assume "names_nonempty db"
  with delete_guest_table [of db param] DELETE_guest show ?thesis
    by (auto simp: names_nonempty_def list_all_iff)
qed

lemma new_rowid_positive:
  assumes "positive_ids db" and "new_rowid draws db = Inr k"
  shows "0 < k"
proof (cases "db = []")
  case True
  with assms(2) show ?thesis by (simp add: new_rowid_def)
next
  case False
  then obtain g where g: "g \<in> set db" by (cases db) auto
  with assms(1) have "0 < guestid g"
    by (simp add: positive_ids_def list_all_iff)
  moreover have "guestid g \<le> Max (guestid ` set db)"
    using g by (intro Max_ge) auto
  ultimately have m: "0 < Max (guestid ` set db)" by linarith
  show ?thesis
  proof (cases "Max (guestid ` set db) < 2 ^ 63 - 1")
    case True
    with assms(2) False m show ?thesis
      by (simp add: new_rowid_def Let_def del: Max_less_iff)
  next
    case big: False
    with assms(2) False have "find (\<lambda>v. v \<notin> guestid ` set db)
        (map (\<lambda>i. draws i mod 2 ^ 62 + 1) [0..<100]) = Some k"
      by (simp add: new_rowid_def Let_def del: Max_less_iff split: option.splits)
    then have "k \<in> set (map (\<lambda>i. draws i mod 2 ^ 62 + 1) [0..<100])"
      by (metis find_Some_iff nth_mem)
    then obtain i where "k = draws i mod 2 ^ 62 + 1" by auto
    moreover have "0 \<le> draws i mod 2 ^ 62" by simp
    ultimately show ?thesis by linarith
  qed
qed

lemma insert_rowid_positive:
  assumes "positive_ids db" and "insert_rowid draws db i = Inr k"
    and "case i of None \<Rightarrow> True | Some n \<Rightarrow> isPositiveInt n"
  shows "0 < k"
proof (cases i)
  case None
  with assms(1,2) show ?thesis by (simp add: insert_rowid_def new_rowid_positive)
next
  case (Some n)
  with assms(3) obtain j where j: "0 < j" "n = Double (of_int j)"
    by (auto simp: isPositiveInt_iff)
  with assms(2) Some show ?thesis
    by (auto simp: insert_rowid_def rowid_of_real_def split: if_splits)
qed

lemma positive_ids_app:
  assumes "positive_ids db" and "positive_create req"
  shows "positive_ids (snd (app db req))"
proof (cases req)
  case GET_guests
  with assms(1) show ?thesis by (simp add: get_guests_def)
next
  case (GET_guest param)
  with assms(1) show ?thesis by (simp add: get_guest_table)
next
  case (POST_guests body draws)
  from post_guests_table [of draws db body]
  consider "snd (post_guests draws db body) = db"
    | b k s p e a where "body = Some b" "insert_rowid draws db (body_guestid b) = Inr k"
        "snd (post_guests draws db body) =
           insort_key guestid (stored k (trim s) p e a) db"
    by blast
  then show ?thesis
  proof cases
    case 1
    with POST_guests assms(1) show ?thesis by simp
  next
    case 2
    with POST_guests assms(2)
    have "case body_guestid b of None \<Rightarrow> True | Some n \<Rightarrow> isPositiveInt n"
      by simp
    with assms(1) 2(2) have "0 < k"
      by (rule insert_rowid_positive)
    with assms(1) 2(3) POST_guests show ?thesis
      by (simp add: positive_ids_def list_all_iff set_insort_key)
  qed
next
  case (PUT_guest param body)
  with put_guest_table [of db param body] assms(1) show ?thesis
    by (auto simp: positive_ids_def list_all_iff update_guest_def)
next
  case (DELETE_guest param)
  with delete_guest_table [of db param] assms(1) show ?thesis
    by (auto simp: positive_ids_def list_all_iff)
qed

lemma serve_Cons: "serve db (req # reqs) = serve (snd (app db req)) reqs"
  by (simp add: serve_def)

lemma serve_unique_ids: "unique_ids db \<Longrightarrow> unique_ids (serve db reqs)"
  by (induction reqs arbitrary: db) (simp_all add: serve_Cons unique_ids_app, simp add: serve_def)

lemma serve_names_nonempty: "names_nonempty db \<Longrightarrow> names_nonempty (serve db reqs)"
  by (induction reqs arbitrary: db) (simp_all add: serve_Cons names_nonempty_app, simp add: serve_def)

lemma serve_positive_ids:
  "positive_ids db \<Longrightarrow> list_all positive_create reqs \<Longrightarrow> positive_ids (serve db reqs)"
  by (induction reqs arbitrary: db) (simp_all add: serve_Cons positive_ids_app, simp add: serve_def)

text \<open>
  C3 at its failing input. From the empty table, the create
  \<open>POST {"guestid":-5,"name":"x"}\<close> answers 201 and stores a row whose \<open>guestid\<close> is
  \<open>-5\<close>, and \<open>"guestid":0\<close> stores a row with \<open>guestid\<close> 0: the ids of a reachable
  table are not all positive. GET by the path value \<open>-5\<close> answers 400 with
  \<open>guestid must be positive integer\<close>: the handlers by id refuse the id the create took. (By \<open>serve_unique_ids\<close> and \<open>serve_names_nonempty\<close> the
  other two parts of the invariant hold in every reachable table, and by
  \<open>serve_positive_ids\<close> so does this one when no create supplies such a \<open>guestid\<close>.)
\<close>

theorem create_stores_nonpositive_id:
  "serve []
     [POST_guests
        (Some \<lparr>body_guestid = Some (Double (- 5)), body_name = Some (JStr (js ''x'')),
               body_phone = None, body_email = None, body_address = None\<rparr>) (\<lambda>_. 0)] =
   [\<lparr>guestid = - 5, name = js ''x'', phone = None, email = None, address = None\<rparr>]
   \<and> \<not> positive_ids (serve []
     [POST_guests
        (Some \<lparr>body_guestid = Some (Double (- 5)), body_name = Some (JStr (js ''x'')),
               body_phone = None, body_email = None, body_address = None\<rparr>) (\<lambda>_. 0)])
   \<and> serve []
     [POST_guests
        (Some \<lparr>body_guestid = Some (Double 0), body_name = Some (JStr (js ''x'')),
               body_phone = None, body_email = None, body_address = None\<rparr>) (\<lambda>_. 0)] =
   [\<lparr>guestid = 0, name = js ''x'', phone = None, email = None, address = None\<rparr>]
   \<and> get_guest [\<lparr>guestid = - 5, name = js ''x'', phone = None, email = None, address = None\<rparr>]
        (js ''-5'') =
       ((400, Message ''guestid must be positive integer''),
        [\<lparr>guestid = - 5, name = js ''x'', phone = None, email = None, address = None\<rparr>])"
proof -
  have "Number (js ''-5'') = Double (- 5)"
    by (simp add: string_eval number_eval)
  then have "get_guest
      [\<lparr>guestid = - 5, name = js ''x'', phone = None, email = None, address = None\<rparr>]
      (js ''-5'') =
      ((400, Message ''guestid must be positive integer''),
       [\<lparr>guestid = - 5, name = js ''x'', phone = None, email = None, address = None\<rparr>])"
    by (simp add: get_guest_def isPositiveInt_def isInteger_def greater_zero_def)
  then show ?thesis
    by (simp add: serve_def post_guests_def validate_eval string_eval table_eval
        positive_ids_def)
qed

end
